theory Spec2Isabelle
  imports Main "HOL-Library.Sublist"
begin

section \<open>Text and pattern matching\<close>

text \<open>
  The donation-form linter exists twice in the repository: as the JavaScript class
  \<^verbatim>\<open>DonationFormValidator\<close> of \<^verbatim>\<open>basic.js\<close> and as a Java class of the same name.
  Both work on markup as plain text, with substring tests and regular expressions.
  Markup is a \<^typ>\<open>string\<close>, a list of characters. Every literal and every character class
  of the source is ASCII, and a negated class takes any other character, so matching on
  characters and matching on the UTF-16 units of the source's strings find the same texts.
\<close>

text \<open>\<^verbatim>\<open>String.prototype.includes\<close> and \<^verbatim>\<open>String.contains\<close>: the substring test.\<close>

fun str_includes :: "string \<Rightarrow> string \<Rightarrow> bool" where
  "str_includes [] t = (t = [])"
| "str_includes (c # cs) t = (prefix t (c # cs) \<or> str_includes cs t)"

text \<open>
  The regular expressions of the source use literal text, the negated one-character
  classes \<^verbatim>\<open>[^"]\<close> and \<^verbatim>\<open>[^>]\<close>, the class \<^verbatim>\<open>\s\<close> (Java: space, tab, line feed,
  vertical tab, form feed, carriage return), the greedy quantifiers \<^verbatim>\<open>*\<close> and \<^verbatim>\<open>+\<close> on
  such a class, capturing groups, alternation and concatenation.
\<close>

datatype cclass = AnyBut char | Whitespace

fun inClass :: "cclass \<Rightarrow> char \<Rightarrow> bool" where
  "inClass (AnyBut c) x = (x \<noteq> c)"
| "inClass Whitespace x =
     (x \<in> set [CHR 0x20, CHR 0x09, CHR 0x0A, CHR 0x0B, CHR 0x0C, CHR 0x0D])"

datatype regex =
    Lit string
  | Star cclass
  | Plus cclass
  | Group regex
  | Alt regex regex
  | Seq regex regex

text \<open>
  A capturing group that took no part in a match is \<^verbatim>\<open>undefined\<close> (JavaScript) or
  \<^verbatim>\<open>null\<close> (Java): \<^const>\<open>None\<close>. An attempt is the text matched, the groups in the order
  of their opening parentheses, and the text left over.
\<close>

type_synonym groups = "string option list"
type_synonym attempt = "string \<times> groups \<times> string"

fun ngroups :: "regex \<Rightarrow> nat" where
  "ngroups (Lit t) = 0"
| "ngroups (Star c) = 0"
| "ngroups (Plus c) = 0"
| "ngroups (Group r) = Suc (ngroups r)"
| "ngroups (Alt a b) = ngroups a + ngroups b"
| "ngroups (Seq a b) = ngroups a + ngroups b"

text \<open>
  Greedy repetition of a class: every split of the text into characters taken and text
  left, the longest run first, as a backtracking matcher tries them.
\<close>

fun star :: "cclass \<Rightarrow> string \<Rightarrow> (string \<times> string) list" where
  "star c [] = [([], [])]"
| "star c (x # xs) =
     (if inClass c x then map (\<lambda>(t, r). (x # t, r)) (star c xs) @ [([], x # xs)]
      else [([], x # xs)])"

text \<open>
  All the ways a pattern matches at the start of a text, in the order in which a
  backtracking matcher finds them; the first one is the match it reports.
\<close>

fun matchesAt :: "regex \<Rightarrow> string \<Rightarrow> attempt list" where
  "matchesAt (Lit t) s = (if prefix t s then [(t, [], drop (length t) s)] else [])"
| "matchesAt (Star c) s = map (\<lambda>(t, r). (t, [], r)) (star c s)"
| "matchesAt (Plus c) s =
     map (\<lambda>(t, r). (t, [], r)) (filter (\<lambda>(t, r). t \<noteq> []) (star c s))"
| "matchesAt (Group r) s = map (\<lambda>(w, g, rest). (w, Some w # g, rest)) (matchesAt r s)"
| "matchesAt (Alt a b) s =
     map (\<lambda>(w, g, rest). (w, g @ replicate (ngroups b) None, rest)) (matchesAt a s) @
     map (\<lambda>(w, g, rest). (w, replicate (ngroups a) None @ g, rest)) (matchesAt b s)"
| "matchesAt (Seq a b) s =
     concat (map (\<lambda>(w, g, rest).
       map (\<lambda>(w', g', rest'). (w @ w', g @ g', rest')) (matchesAt b rest)) (matchesAt a s))"

text \<open>
  The leftmost match: the text skipped before it, and the attempt. This is one
  \<^verbatim>\<open>RegExp.prototype.exec\<close> or one \<^verbatim>\<open>Matcher.find\<close>.
\<close>

fun exec :: "regex \<Rightarrow> string \<Rightarrow> (string \<times> attempt) option" where
  "exec r [] = (case matchesAt r [] of [] \<Rightarrow> None | m # _ \<Rightarrow> Some ([], m))"
| "exec r (x # xs) =
     (case matchesAt r (x # xs) of
        m # _ \<Rightarrow> Some ([], m)
      | [] \<Rightarrow> map_option (\<lambda>(p, m). (x # p, m)) (exec r xs))"

subsection \<open>The texts a pattern matches\<close>

text \<open>
  The set of texts a pattern matches, as a specification of the matcher: every attempt of
  \<^const>\<open>matchesAt\<close> consumes a text of the pattern, and every text of the pattern at the
  start of the input is among the attempts. The search over positions then finds a match
  exactly when some text of the pattern occurs.
\<close>

fun lang :: "regex \<Rightarrow> string set" where
  "lang (Lit t) = {t}"
| "lang (Star c) = {w. \<forall>x\<in>set w. inClass c x}"
| "lang (Plus c) = {w. w \<noteq> [] \<and> (\<forall>x\<in>set w. inClass c x)}"
| "lang (Group r) = lang r"
| "lang (Alt a b) = lang a \<union> lang b"
| "lang (Seq a b) = {u @ v | u v. u \<in> lang a \<and> v \<in> lang b}"

lemma star_sound: "(t, r) \<in> set (star c s) \<Longrightarrow> s = t @ r \<and> (\<forall>x\<in>set t. inClass c x)"
  by (induction s arbitrary: t r) (auto split: if_splits)

lemma star_complete: "\<forall>x\<in>set t. inClass c x \<Longrightarrow> (t, r) \<in> set (star c (t @ r))"
proof (induction t)
  case Nil
  show ?case by (cases r) auto
next
  case (Cons x t)
  then show ?case by (auto intro!: image_eqI [where x = "(t, r)"])
qed

lemma matchesAt_sound:
  "(w, g, rest) \<in> set (matchesAt r s) \<Longrightarrow> s = w @ rest \<and> w \<in> lang r"
proof (induction r arbitrary: w g rest s)
  case (Lit t)
  then show ?case by (auto split: if_splits simp: prefix_def)
next
  case (Star c)
  then show ?case by (auto dest: star_sound)
next
  case (Plus c)
  then show ?case by (auto dest: star_sound)
next
  case (Group r)
  then show ?case by auto
next
  case (Alt a b)
  then show ?case by auto
next
  case (Seq a b)
  from Seq.prems obtain w1 g1 r1 w2 g2 where
    a: "(w1, g1, r1) \<in> set (matchesAt a s)" and
    b: "(w2, g2, rest) \<in> set (matchesAt b r1)" and
    w: "w = w1 @ w2"
    by auto
  from Seq.IH(1) [OF a] Seq.IH(2) [OF b] w show ?case by auto
qed

lemma matchesAt_complete:
  "w \<in> lang r \<Longrightarrow> \<exists>g. (w, g, rest) \<in> set (matchesAt r (w @ rest))"
proof (induction r arbitrary: w rest)
  case (Lit t)
  then show ?case by simp
next
  case (Star c)
  then have "(w, rest) \<in> set (star c (w @ rest))" by (simp add: star_complete)
  then show ?case by (force intro!: image_eqI [where x = "(w, rest)"])
next
  case (Plus c)
  then have "(w, rest) \<in> set (star c (w @ rest))" and "w \<noteq> []" by (simp_all add: star_complete)
  then show ?case by (force intro!: image_eqI [where x = "(w, rest)"])
next
  case (Group r)
  from Group.IH [OF Group.prems [simplified]] obtain g where
    "(w, g, rest) \<in> set (matchesAt r (w @ rest))" by blast
  then show ?case by (force intro!: image_eqI [where x = "(w, g, rest)"])
next
  case (Alt a b)
  from Alt.prems have "w \<in> lang a \<or> w \<in> lang b" by simp
  then show ?case
  proof
    assume "w \<in> lang a"
    from Alt.IH(1) [OF this] obtain g where "(w, g, rest) \<in> set (matchesAt a (w @ rest))" by blast
    then show ?thesis by (force intro!: image_eqI [where x = "(w, g, rest)"])
  next
    assume "w \<in> lang b"
    from Alt.IH(2) [OF this] obtain g where "(w, g, rest) \<in> set (matchesAt b (w @ rest))" by blast
    then show ?thesis by (force intro!: image_eqI [where x = "(w, g, rest)"])
  qed
next
  case (Seq a b)
  from Seq.prems obtain u v where w: "w = u @ v" and u: "u \<in> lang a" and v: "v \<in> lang b"
    by auto
  from Seq.IH(1) [OF u, of "v @ rest"] obtain g1 where
    1: "(u, g1, v @ rest) \<in> set (matchesAt a (u @ v @ rest))" by blast
  from Seq.IH(2) [OF v, of rest] obtain g2 where
    2: "(v, g2, rest) \<in> set (matchesAt b (v @ rest))" by blast
  from 1 2 w show ?case by force
qed

lemma exec_Some:
  "exec r s = Some (p, w, g, rest) \<Longrightarrow> s = p @ w @ rest \<and> w \<in> lang r"
proof (induction s arbitrary: p)
  case Nil
  then obtain ms where m: "matchesAt r [] = (w, g, rest) # ms" and "p = []"
    by (auto split: list.splits)
  then have "(w, g, rest) \<in> set (matchesAt r [])" by simp
  from matchesAt_sound [OF this] \<open>p = []\<close> show ?case by auto
next
  case (Cons x xs)
  show ?case
  proof (cases "matchesAt r (x # xs)")
    case Nil
    with Cons.prems obtain p' where "exec r xs = Some (p', w, g, rest)" and "p = x # p'"
      by auto
    with Cons.IH show ?thesis by auto
  next
    case (Cons m ms)
    with Cons.prems have "m = (w, g, rest)" and "p = []" by auto
    with Cons have "(w, g, rest) \<in> set (matchesAt r (x # xs))" by simp
    from matchesAt_sound [OF this] \<open>p = []\<close> show ?thesis by simp
  qed
qed

lemma exec_complete: "w \<in> lang r \<Longrightarrow> exec r (p @ w @ rest) \<noteq> None"
proof (induction p)
  case Nil
  from matchesAt_complete [OF Nil, of rest] have "matchesAt r (w @ rest) \<noteq> []" by auto
  then show ?case by (cases "w @ rest") (auto split: list.splits)
next
  case (Cons x p)
  then show ?case by (auto split: list.splits)
qed

text \<open>
  All matches from left to right, each search starting where the last match ended, and one
  character further after an empty match: \<^verbatim>\<open>str.match\<close> with the \<^verbatim>\<open>g\<close> flag, or a loop
  \<^verbatim>\<open>while (matcher.find())\<close>.
\<close>

lemma exec_shorter:
  "exec r s = Some (p, w, g, rest) \<Longrightarrow> length rest \<le> length s"
  by (drule exec_Some) simp

lemma exec_shorter_strict:
  "exec r s = Some (p, w, g, rest) \<Longrightarrow> w \<noteq> [] \<Longrightarrow> length rest < length s"
  by (drule exec_Some) (cases w, auto)

function findAll :: "regex \<Rightarrow> string \<Rightarrow> (string \<times> groups) list" where
  "findAll r s =
     (case exec r s of
        None \<Rightarrow> []
      | Some (p, w, g, rest) \<Rightarrow>
          (w, g) # (if w \<noteq> [] then findAll r rest
                    else (case rest of [] \<Rightarrow> [] | c # rest' \<Rightarrow> findAll r rest')))"
  by pat_completeness auto
termination
proof (relation "measure (\<lambda>(r, s). length s)")
  show "wf (measure (\<lambda>(r, s). length s))" by simp
next
  fix r s x2 p y w ya g rest
  assume "exec r s = Some x2" "(p, y) = x2" "(w, ya) = y" "(g, rest) = ya" "w \<noteq> []"
  then have "exec r s = Some (p, w, g, rest)" by simp
  from exec_shorter_strict [OF this \<open>w \<noteq> []\<close>]
  show "((r, rest), (r, s)) \<in> measure (\<lambda>(r, s). length s)" by simp
next
  fix r s x2 p y w ya g rest c rest'
  assume "exec r s = Some x2" "(p, y) = x2" "(w, ya) = y" "(g, rest) = ya" "rest = c # rest'"
  then have "exec r s = Some (p, w, g, c # rest')" by simp
  from exec_shorter [OF this]
  show "((r, rest'), (r, s)) \<in> measure (\<lambda>(r, s). length s)" by simp
qed

declare findAll.simps [simp del]

section \<open>The JavaScript validator\<close>

datatype error = TypeError | IllegalArgumentException | IndexOutOfBoundsException

text \<open>
  \<^verbatim>\<open>str.match(re)\<close> with the \<^verbatim>\<open>g\<close> flag gives the matched texts, or \<^verbatim>\<open>null\<close> when
  there is none; without the flag it gives the array of the first match (the text, then
  the groups), or \<^verbatim>\<open>null\<close>. Reading index 1 of \<^verbatim>\<open>null\<close> raises a TypeError; beyond
  the end of an array it is \<^verbatim>\<open>undefined\<close>.
\<close>

definition match_g :: "regex \<Rightarrow> string \<Rightarrow> string list option" where
  "match_g r s = (case findAll r s of [] \<Rightarrow> None | m # ms \<Rightarrow> Some (map fst (m # ms)))"

definition match1 :: "regex \<Rightarrow> string \<Rightarrow> string option list option" where
  "match1 r s = (case exec r s of None \<Rightarrow> None | Some (p, w, g, rest) \<Rightarrow> Some (Some w # g))"

definition index1 :: "string option list option \<Rightarrow> error + string option" where
  "index1 a =
     (case a of
        None \<Rightarrow> Inl TypeError
      | Some xs \<Rightarrow> Inr (case xs of _ # v # _ \<Rightarrow> v | _ \<Rightarrow> None))"

text \<open>A value inside a template literal: \<^verbatim>\<open>undefined\<close> prints as that word.\<close>

definition toStr :: "string option \<Rightarrow> string" where
  "toStr v = (case v of None \<Rightarrow> ''undefined'' | Some s \<Rightarrow> s)"

text \<open>\<^verbatim>\<open>Array.prototype.map\<close> with a callback that may throw.\<close>

fun mapE :: "('a \<Rightarrow> error + 'b) \<Rightarrow> 'a list \<Rightarrow> error + 'b list" where
  "mapE f [] = Inr []"
| "mapE f (x # xs) =
     (case f x of
        Inl e \<Rightarrow> Inl e
      | Inr y \<Rightarrow> (case mapE f xs of Inl e \<Rightarrow> Inl e | Inr ys \<Rightarrow> Inr (y # ys)))"

text \<open>
  The patterns, with the regular expression of the source each one stands for:
  \<^item> \<open>labelPattern\<close>: \<^verbatim>\<open><label for="([^"]+)">\<close>
  \<^item> \<open>inputIdPattern\<close>: \<^verbatim>\<open><input[^>]+id="([^"]+)"\<close>
  \<^item> \<open>forPattern\<close>: \<^verbatim>\<open>for="([^"]+)"\<close>
  \<^item> \<open>idPattern\<close>: \<^verbatim>\<open>id="([^"]+)"\<close>
  \<^item> \<open>requiredInputPattern\<close>: \<^verbatim>\<open><input[^>]+(type="text"|type="email"|type="number")[^>]*>\<close>
  \<^item> \<open>typePattern\<close>: \<^verbatim>\<open>type="([^"]+)"\<close>
  \<^item> \<open>inputPattern\<close>: \<^verbatim>\<open><input[^>]*>\<close>
  \<^item> \<open>labelTagPattern\<close>: \<^verbatim>\<open><label[^>]*>\<close> (Java calls it \<^verbatim>\<open>labelPattern\<close> as well)
  \<^item> \<open>labelForPattern\<close>: \<^verbatim>\<open><label for="([^"]+)"\<close>
\<close>

definition labelPattern :: regex where
  \<open>labelPattern = Seq (Lit ''<label for="'') (Seq (Group (Plus (AnyBut (CHR ''"'')))) (Lit ''">''))\<close>

definition inputIdPattern :: regex where
  \<open>inputIdPattern =
     Seq (Lit ''<input'') (Seq (Plus (AnyBut (CHR ''>'')))
       (Seq (Lit ''id="'') (Seq (Group (Plus (AnyBut (CHR ''"'')))) (Lit ''"''))))\<close>

definition forPattern :: regex where
  \<open>forPattern = Seq (Lit ''for="'') (Seq (Group (Plus (AnyBut (CHR ''"'')))) (Lit ''"''))\<close>

definition idPattern :: regex where
  \<open>idPattern = Seq (Lit ''id="'') (Seq (Group (Plus (AnyBut (CHR ''"'')))) (Lit ''"''))\<close>

definition requiredInputPattern :: regex where
  \<open>requiredInputPattern =
     Seq (Lit ''<input'') (Seq (Plus (AnyBut (CHR ''>'')))
       (Seq (Group (Alt (Lit ''type="text"'') (Alt (Lit ''type="email"'') (Lit ''type="number"''))))
         (Seq (Star (AnyBut (CHR ''>''))) (Lit ''>''))))\<close>

definition typePattern :: regex where
  \<open>typePattern = Seq (Lit ''type="'') (Seq (Group (Plus (AnyBut (CHR ''"'')))) (Lit ''"''))\<close>

definition inputPattern :: regex where
  \<open>inputPattern = Seq (Lit ''<input'') (Seq (Star (AnyBut (CHR ''>''))) (Lit ''>''))\<close>

definition labelTagPattern :: regex where
  \<open>labelTagPattern = Seq (Lit ''<label'') (Seq (Star (AnyBut (CHR ''>''))) (Lit ''>''))\<close>

definition labelForPattern :: regex where
  \<open>labelForPattern = Seq (Lit ''<label for="'') (Seq (Group (Plus (AnyBut (CHR ''"'')))) (Lit ''"''))\<close>

definition voidMessage :: string where
  \<open>voidMessage = ''Found </input> closing tags - input elements are void elements''\<close>

definition labelMessage :: "string \<Rightarrow> string" where
  \<open>labelMessage i =
     ''Label with for="'' @ i @ ''" has no corresponding input with matching id''\<close>

definition requiredMessage :: "string \<Rightarrow> string" where
  \<open>requiredMessage t = ''Input with type '' @ t @ '' should have required attribute''\<close>

definition emailMessage :: string where
  \<open>emailMessage = ''Email input should have type="email" instead of type="text"''\<close>

text \<open>The label check of \<^verbatim>\<open>validateFormStructure\<close>: it runs only when both matches are not null.\<close>

definition labelErrors :: "string list option \<Rightarrow> string list option \<Rightarrow> error + string list" where
  "labelErrors labelMatches inputIdMatches =
     (case labelMatches of
        None \<Rightarrow> Inr []
      | Some ls \<Rightarrow>
          (case inputIdMatches of
             None \<Rightarrow> Inr []
           | Some is \<Rightarrow>
               (case mapE (\<lambda>m. index1 (match1 forPattern m)) ls of
                  Inl e \<Rightarrow> Inl e
                | Inr labelIds \<Rightarrow>
                    (case mapE (\<lambda>m. index1 (match1 idPattern m)) is of
                       Inl e \<Rightarrow> Inl e
                     | Inr inputIds \<Rightarrow>
                         Inr (map (\<lambda>i. labelMessage (toStr i))
                                (filter (\<lambda>i. i \<notin> set inputIds) labelIds))))))"

definition requiredErrors :: "string list option \<Rightarrow> error + string list" where
  "requiredErrors requiredInputs =
     (case requiredInputs of
        None \<Rightarrow> Inr []
      | Some inputs \<Rightarrow>
          mapE (\<lambda>input.
                 case index1 (match1 typePattern input) of
                   Inl e \<Rightarrow> Inl e
                 | Inr t \<Rightarrow> Inr (requiredMessage (toStr t)))
            (filter (\<lambda>input. \<not> str_includes input ''required'') inputs))"

definition validateFormStructure :: "string \<Rightarrow> error + string list" where
  \<open>validateFormStructure htmlContent =
     (case labelErrors (match_g labelPattern htmlContent) (match_g inputIdPattern htmlContent) of
        Inl e \<Rightarrow> Inl e
      | Inr labelErrs \<Rightarrow>
          (case requiredErrors (match_g requiredInputPattern htmlContent) of
             Inl e \<Rightarrow> Inl e
           | Inr requiredErrs \<Rightarrow>
               Inr ((if str_includes htmlContent ''</input>'' then [voidMessage] else []) @
                    labelErrs @ requiredErrs @
                    (if \<not> str_includes htmlContent ''type="email"'' then [emailMessage] else []))))\<close>

text \<open>
  The reference template: the template literal of \<^verbatim>\<open>basic.js\<close> and, character for
  character, the text between the triple quotes of the Java method.
\<close>

definition generateCorrectedHTML :: string where
  \<open>generateCorrectedHTML =
     ''<!DOCTYPE html>\<newline>'' @
     ''<html lang="en">\<newline>'' @
     ''<head>\<newline>'' @
     ''  <meta charset="UTF-8">\<newline>'' @
     ''  <title>Donation Form</title>\<newline>'' @
     ''</head>\<newline>'' @
     ''<body>\<newline>'' @
     ''  <h1>Donation Form</h1>\<newline>'' @
     ''  <form>\<newline>'' @
     ''    <label for="fullName">Full Name:</label>\<newline>'' @
     ''    <input type="text" id="fullName" name="name" required>\<newline>'' @
     ''    \<newline>'' @
     ''    <label for="emailAddress">Email Address:</label>\<newline>'' @
     ''    <input type="email" id="emailAddress" name="email" required>\<newline>'' @
     ''    \<newline>'' @
     ''    <label for="donationAmount">Donation Amount ($):</label>\<newline>'' @
     ''    <input type="number" id="donationAmount" name="amount" required>\<newline>'' @
     ''    \<newline>'' @
     ''    <label for="subscribe">Subscribe</label>\<newline>'' @
     ''    <input type="checkbox" id="subscribe" name="newsletter">\<newline>'' @
     ''    \<newline>'' @
     ''    <input type="submit" value="Send">\<newline>'' @
     ''  </form>\<newline>'' @
     ''</body>\<newline>'' @
     ''</html>''\<close>

definition checkLabelInputAssociation :: "string \<Rightarrow> error + bool" where
  "checkLabelInputAssociation htmlContent =
     (let labelForMatches = (case match_g labelForPattern htmlContent of None \<Rightarrow> [] | Some ms \<Rightarrow> ms);
          inputIdMatches = (case match_g inputIdPattern htmlContent of None \<Rightarrow> [] | Some ms \<Rightarrow> ms)
      in case mapE (\<lambda>m. index1 (match1 forPattern m)) labelForMatches of
           Inl e \<Rightarrow> Inl e
         | Inr labelFors \<Rightarrow>
             (case mapE (\<lambda>m. index1 (match1 idPattern m)) inputIdMatches of
                Inl e \<Rightarrow> Inl e
              | Inr inputIds \<Rightarrow> Inr (list_all (\<lambda>forValue. forValue \<in> set inputIds) labelFors)))"

definition validateAllRequirements :: "string \<Rightarrow> error + (string \<times> bool) list" where
  \<open>validateAllRequirements htmlContent =
     (case checkLabelInputAssociation htmlContent of
        Inl e \<Rightarrow> Inl e
      | Inr assoc \<Rightarrow> Inr
         [(''noInputClosingTags'', \<not> str_includes htmlContent ''</input>''),
          (''fiveInputElements'',
             length (case match_g inputPattern htmlContent of None \<Rightarrow> [] | Some ms \<Rightarrow> ms) = 5),
          (''fourLabelElements'',
             length (case match_g labelTagPattern htmlContent of None \<Rightarrow> [] | Some ms \<Rightarrow> ms) = 4),
          (''firstLabelText'', str_includes htmlContent ''<label for="fullName">Full Name:</label>''),
          (''firstInputRequired'',
             str_includes htmlContent ''<input type="text" id="fullName" name="name" required>''),
          (''secondLabelText'',
             str_includes htmlContent ''<label for="emailAddress">Email Address:</label>''),
          (''secondInputRequired'',
             str_includes htmlContent ''<input type="email" id="emailAddress" name="email" required>''),
          (''thirdLabelText'',
             str_includes htmlContent ''<label for="donationAmount">Donation Amount ($):</label>''),
          (''thirdInputRequired'',
             str_includes htmlContent ''<input type="number" id="donationAmount" name="amount" required>''),
          (''fourthLabelText'', str_includes htmlContent ''<label for="subscribe">Subscribe</label>''),
          (''labelInputAssociation'', assoc),
          (''emailInputType'', str_includes htmlContent ''type="email"''),
          (''checkboxNotRequired'',
             \<not> str_includes htmlContent ''<input type="checkbox" id="subscribe" name="newsletter" required>''),
          (''submitNotRequired'',
             \<not> str_includes htmlContent ''<input type="submit" value="Send" required>'')])\<close>

section \<open>The Java validator\<close>

text \<open>
  The Java class repeats the checks with \<^verbatim>\<open>Matcher.find\<close> loops and adds
  \<^verbatim>\<open>fixFormHTML\<close>. \<^verbatim>\<open>Matcher.group(n)\<close> is the text of group \<^verbatim>\<open>n\<close> of the current match
  (group 0 is the match), \<^verbatim>\<open>null\<close> for a group that took no part, and an
  IndexOutOfBoundsException for a group the pattern does not have. A \<^verbatim>\<open>null\<close> in a string
  concatenation prints as that word.
\<close>

definition group_java :: "nat \<Rightarrow> string \<times> groups \<Rightarrow> error + string option" where
  "group_java n m =
     (if n = 0 then Inr (Some (fst m))
      else if n \<le> length (snd m) then Inr (snd m ! (n - 1))
      else Inl IndexOutOfBoundsException)"

definition str_java :: "string option \<Rightarrow> string" where
  "str_java v = (case v of None \<Rightarrow> ''null'' | Some s \<Rightarrow> s)"

text \<open>
  The identifiers go into a \<^verbatim>\<open>HashSet\<close>: no duplicates, and an iteration order that
  depends on hash codes. The embedding keeps them as a duplicate-free list; what is
  proved about the Java diagnostics does not depend on their order.
\<close>

definition requiredErrors_java :: "(string \<times> groups) list \<Rightarrow> error + string list" where
  "requiredErrors_java ms =
     (case mapE (\<lambda>m.
              if str_includes (fst m) ''required'' then Inr []
              else (case exec typePattern (fst m) of
                      None \<Rightarrow> Inr []
                    | Some (p, w, g, rest) \<Rightarrow>
                        (case group_java 1 (w, g) of
                           Inl e \<Rightarrow> Inl e
                         | Inr t \<Rightarrow> Inr [requiredMessage (str_java t)]))) ms of
        Inl e \<Rightarrow> Inl e
      | Inr ess \<Rightarrow> Inr (concat ess))"

definition validateFormStructure_java :: "string \<Rightarrow> error + string list" where
  \<open>validateFormStructure_java htmlContent =
     (case mapE (group_java 1) (findAll labelPattern htmlContent) of
        Inl e \<Rightarrow> Inl e
      | Inr ls \<Rightarrow>
          (case mapE (group_java 1) (findAll inputIdPattern htmlContent) of
             Inl e \<Rightarrow> Inl e
           | Inr is \<Rightarrow>
               (let labelIds = remdups ls; inputIds = remdups is in
                case requiredErrors_java (findAll requiredInputPattern htmlContent) of
                  Inl e \<Rightarrow> Inl e
                | Inr requiredErrs \<Rightarrow>
                    Inr ((if str_includes htmlContent ''</input>'' then [voidMessage] else []) @
                         map (\<lambda>labelId. labelMessage (str_java labelId))
                           (filter (\<lambda>labelId. labelId \<notin> set inputIds) labelIds) @
                         requiredErrs @
                         (if \<not> str_includes htmlContent ''type="email"'' then [emailMessage]
                          else [])))))\<close>

definition checkLabelInputAssociation_java :: "string \<Rightarrow> error + bool" where
  "checkLabelInputAssociation_java htmlContent =
     (case mapE (group_java 1) (findAll labelForPattern htmlContent) of
        Inl e \<Rightarrow> Inl e
      | Inr ls \<Rightarrow>
          (case mapE (group_java 1) (findAll inputIdPattern htmlContent) of
             Inl e \<Rightarrow> Inl e
           | Inr is \<Rightarrow>
               (let labelFors = remdups ls; inputIds = remdups is
                in Inr (list_all (\<lambda>labelFor. labelFor \<in> set inputIds) labelFors))))"

text \<open>
  \<open>checkboxRequiredPattern\<close> is \<^verbatim>\<open><input type="checkbox"[^>]*required[^>]*>\<close> and
  \<open>submitRequiredPattern\<close> is \<^verbatim>\<open><input type="submit"[^>]*required[^>]*>\<close>.
\<close>

definition checkboxRequiredPattern :: regex where
  \<open>checkboxRequiredPattern =
     Seq (Lit ''<input type="checkbox"'') (Seq (Star (AnyBut (CHR ''>'')))
       (Seq (Lit ''required'') (Seq (Star (AnyBut (CHR ''>''))) (Lit ''>''))))\<close>

definition submitRequiredPattern :: regex where
  \<open>submitRequiredPattern =
     Seq (Lit ''<input type="submit"'') (Seq (Star (AnyBut (CHR ''>'')))
       (Seq (Lit ''required'') (Seq (Star (AnyBut (CHR ''>''))) (Lit ''>''))))\<close>

text \<open>The \<^verbatim>\<open>HashMap\<close> of results, as the list of its entries in the order of the \<^verbatim>\<open>put\<close> calls.\<close>

definition validateAllRequirements_java :: "string \<Rightarrow> error + (string \<times> bool) list" where
  \<open>validateAllRequirements_java htmlContent =
     (case checkLabelInputAssociation_java htmlContent of
        Inl e \<Rightarrow> Inl e
      | Inr assoc \<Rightarrow> Inr
         [(''no_input_closing_tags'', \<not> str_includes htmlContent ''</input>''),
          (''five_input_elements'', length (findAll inputPattern htmlContent) = 5),
          (''four_label_elements'', length (findAll labelTagPattern htmlContent) = 4),
          (''first_label_text'', str_includes htmlContent ''<label for="fullName">Full Name:</label>''),
          (''first_input_required'',
             str_includes htmlContent ''<input type="text" id="fullName" name="name" required>''),
          (''second_label_text'',
             str_includes htmlContent ''<label for="emailAddress">Email Address:</label>''),
          (''second_input_required'',
             str_includes htmlContent ''<input type="email" id="emailAddress" name="email" required>''),
          (''third_label_text'',
             str_includes htmlContent ''<label for="donationAmount">Donation Amount ($):</label>''),
          (''third_input_required'',
             str_includes htmlContent ''<input type="number" id="donationAmount" name="amount" required>''),
          (''fourth_label_text'', str_includes htmlContent ''<label for="subscribe">Subscribe</label>''),
          (''label_input_association'', assoc),
          (''email_input_type'', str_includes htmlContent ''type="email"''),
          (''checkbox_not_required'', exec checkboxRequiredPattern htmlContent = None),
          (''submit_not_required'', exec submitRequiredPattern htmlContent = None)])\<close>

subsection \<open>The fix transform\<close>

text \<open>
  \<^verbatim>\<open>String.replaceAll(regex, replacement)\<close> reads the replacement for every match, as
  \<^verbatim>\<open>Matcher.appendReplacement\<close> does: a backslash makes the next character literal, and
  a dollar sign starts a group reference, which must be a digit (further digits are taken
  as long as the number is a group of the pattern) or a name in braces. The patterns here
  have no named group, so a name in braces is always refused. Anything else after a dollar
  sign, a dollar sign or a backslash at the very end, raise an IllegalArgumentException.
\<close>

definition isDigit :: "char \<Rightarrow> bool" where
  "isDigit c = (48 \<le> (of_char c :: nat) \<and> (of_char c :: nat) \<le> 57)"

definition digitVal :: "char \<Rightarrow> nat" where
  "digitVal c = of_char c - 48"

fun groupRef :: "nat \<Rightarrow> nat \<Rightarrow> string \<Rightarrow> nat \<times> string" where
  "groupRef groupCount refNum [] = (refNum, [])"
| "groupRef groupCount refNum (d # ds) =
     (if isDigit d \<and> refNum * 10 + digitVal d \<le> groupCount
      then groupRef groupCount (refNum * 10 + digitVal d) ds
      else (refNum, d # ds))"

lemma groupRef_length: "length (snd (groupRef groupCount refNum ds)) \<le> length ds"
  by (induction ds arbitrary: refNum) (auto intro: le_SucI)

lemma groupRef_shorter: "(refNum', rest) = groupRef groupCount refNum ds \<Longrightarrow> length rest \<le> length ds"
  using groupRef_length [of groupCount refNum ds] by (cases "groupRef groupCount refNum ds") auto

function expand :: "string \<Rightarrow> string option list \<Rightarrow> error + string" where
  "expand [] gs = Inr []"
| "expand (c # cs) gs =
     (if c = CHR 0x5C then
        (case cs of
           [] \<Rightarrow> Inl IllegalArgumentException
         | d # ds \<Rightarrow> (case expand ds gs of Inl e \<Rightarrow> Inl e | Inr t \<Rightarrow> Inr (d # t)))
      else if c = CHR ''$'' then
        (case cs of
           [] \<Rightarrow> Inl IllegalArgumentException
         | d # ds \<Rightarrow>
             if d = CHR ''{'' then Inl IllegalArgumentException
             else if \<not> isDigit d then Inl IllegalArgumentException
             else (case groupRef (length gs - 1) (digitVal d) ds of
                     (refNum, rest) \<Rightarrow>
                       if length gs - 1 < refNum then Inl IndexOutOfBoundsException
                       else (case expand rest gs of
                               Inl e \<Rightarrow> Inl e
                             | Inr t \<Rightarrow>
                                 Inr ((case gs ! refNum of None \<Rightarrow> [] | Some v \<Rightarrow> v) @ t))))
      else (case expand cs gs of Inl e \<Rightarrow> Inl e | Inr t \<Rightarrow> Inr (c # t)))"
  by pat_completeness auto
termination
  by (relation "measure (\<lambda>(s, gs). length s)") (auto dest: groupRef_shorter simp: less_Suc_eq_le)

function replaceAll :: "string \<Rightarrow> regex \<Rightarrow> string \<Rightarrow> error + string" where
  "replaceAll s r replacement =
     (case exec r s of
        None \<Rightarrow> Inr s
      | Some (p, w, g, rest) \<Rightarrow>
          (case expand replacement (Some w # g) of
             Inl e \<Rightarrow> Inl e
           | Inr t \<Rightarrow>
               (case (if w \<noteq> [] then replaceAll rest r replacement
                      else (case rest of
                              [] \<Rightarrow> Inr []
                            | c # rest' \<Rightarrow>
                                (case replaceAll rest' r replacement of
                                   Inl e \<Rightarrow> Inl e
                                 | Inr u \<Rightarrow> Inr (c # u)))) of
                  Inl e \<Rightarrow> Inl e
                | Inr tail \<Rightarrow> Inr (p @ t @ tail))))"
  by pat_completeness auto
termination
proof (relation "measure (\<lambda>(s, r, replacement). length s)", goal_cases)
  case 1
  show ?case by simp
next
  case (2 s r replacement x2 p y w ya g rest t)
  then have "exec r s = Some (p, w, g, rest)" by simp
  from exec_shorter_strict [OF this] 2 show ?case by simp
next
  case (3 s r replacement x2 p y w ya g rest t c rest')
  then have "exec r s = Some (p, w, g, c # rest')" by simp
  from exec_shorter [OF this] show ?case by simp
qed

declare replaceAll.simps [simp del]

text \<open>
  The patterns of \<^verbatim>\<open>fixFormHTML\<close>, as the regular expressions the Java literals denote:
  \<^item> \<^verbatim>\<open></input>\<close>
  \<^item> \<open>emailInputPattern\<close>: \<^verbatim>\<open><input type="text" name="email">\<close>
  \<^item> \<open>fullNamePattern\<close>: \<^verbatim>\<open>Full Name:\s*<input type="text" name="name">\<close>
  \<^item> \<open>donationAmountPattern\<close>: \<^verbatim>\<open>Donation Amount \(\$\):\s*<input type="number" name="amount">\<close>
  \<^item> \<open>subscribePattern\<close>: \<^verbatim>\<open><input type="checkbox" name="newsletter">\s*Subscribe\<close>
\<close>

definition emailInputPattern :: regex where
  \<open>emailInputPattern = Lit ''<input type="text" name="email">''\<close>

definition fullNamePattern :: regex where
  \<open>fullNamePattern =
     Seq (Lit ''Full Name:'') (Seq (Star Whitespace) (Lit ''<input type="text" name="name">''))\<close>

definition donationAmountPattern :: regex where
  \<open>donationAmountPattern =
     Seq (Lit ''Donation Amount ($):'')
       (Seq (Star Whitespace) (Lit ''<input type="number" name="amount">''))\<close>

definition subscribePattern :: regex where
  \<open>subscribePattern =
     Seq (Lit ''<input type="checkbox" name="newsletter">'') (Seq (Star Whitespace) (Lit ''Subscribe''))\<close>

text \<open>
  The replacement strings, as the Java literals denote them: \<^verbatim>\<open>\\n\<close> in the source is a
  backslash followed by the letter n.
\<close>

definition replacements :: "(regex \<times> string) list" where
  \<open>replacements =
     [(fullNamePattern,
       ''<label for="fullName">Full Name:</label>'' @ [CHR 0x5C] @
       ''n    <input type="text" id="fullName" name="name" required>''),
      (donationAmountPattern,
       ''<label for="donationAmount">Donation Amount ($):</label>'' @ [CHR 0x5C] @
       ''n    <input type="number" id="donationAmount" name="amount" required>''),
      (subscribePattern,
       ''<label for="subscribe">Subscribe</label>'' @ [CHR 0x5C] @
       ''n    <input type="checkbox" id="subscribe" name="newsletter">'')]\<close>

fun applyReplacements :: "(regex \<times> string) list \<Rightarrow> string \<Rightarrow> error + string" where
  "applyReplacements [] fixedHTML = Inr fixedHTML"
| "applyReplacements ((pat, rep) # rs) fixedHTML =
     (case replaceAll fixedHTML pat rep of
        Inl e \<Rightarrow> Inl e
      | Inr fixedHTML' \<Rightarrow> applyReplacements rs fixedHTML')"

definition fixFormHTML :: "string \<Rightarrow> error + string" where
  \<open>fixFormHTML original =
     (case replaceAll original (Lit ''</input>'') [] of
        Inl e \<Rightarrow> Inl e
      | Inr fixedHTML \<Rightarrow>
          (case replaceAll fixedHTML emailInputPattern
                  ''<input type="email" id="emailAddress" name="email" required>'' of
             Inl e \<Rightarrow> Inl e
           | Inr fixedHTML' \<Rightarrow> applyReplacements replacements fixedHTML'))\<close>

text \<open>
  The defective sample markup of both usage examples, the same text in \<^verbatim>\<open>basic.js\<close> and
  in the Java \<^verbatim>\<open>main\<close>.
\<close>

definition originalHTML :: string where
  \<open>originalHTML =
     ''<!DOCTYPE html>\<newline>'' @
     ''<html lang="en">\<newline>'' @
     ''<head>\<newline>'' @
     ''  <meta charset="UTF-8">\<newline>'' @
     ''  <title>Donation Form</title>\<newline>'' @
     ''</head>\<newline>'' @
     ''<body>\<newline>'' @
     ''  <h1>Donation Form</h1>\<newline>'' @
     ''  <form>\<newline>'' @
     ''    \<newline>'' @
     ''    Full Name:\<newline>'' @
     ''    <input type="text" name="name"></input>\<newline>'' @
     ''\<newline>'' @
     ''    Email Address:\<newline>'' @
     ''    <input type="text" name="email">\<newline>'' @
     ''\<newline>'' @
     ''    Donation Amount ($):\<newline>'' @
     ''    <input type="number" name="amount"></input>\<newline>'' @
     ''\<newline>'' @
     ''    <input type="checkbox" name="newsletter"></input>\<newline>'' @
     ''    Subscribe\<newline>'' @
     ''\<newline>'' @
     ''    <input type="submit" value="Send"></input>\<newline>'' @
     ''  </form>\<newline>'' @
     ''</body>\<newline>'' @
     ''</html>''\<close>

section \<open>The validators always return\<close>

text \<open>
  The only operations of the validators that can raise are reading index 1 of a match
  that is \<^verbatim>\<open>null\<close> (JavaScript) and asking for a group the pattern does not have (Java).
  Neither happens: every text found by an outer pattern contains a text of the inner
  pattern that is run on it, and every match of a pattern carries all its groups.
\<close>

lemma matchesAt_groups: "(w, g, rest) \<in> set (matchesAt r s) \<Longrightarrow> length g = ngroups r"
proof (induction r arbitrary: w g rest s)
  case (Seq a b)
  from Seq.prems obtain w1 g1 r1 w2 g2 where
    "(w1, g1, r1) \<in> set (matchesAt a s)" "(w2, g2, rest) \<in> set (matchesAt b r1)" "g = g1 @ g2"
    by auto
  with Seq.IH show ?case by auto
qed (auto split: if_splits)

lemma exec_groups: "exec r s = Some (p, w, g, rest) \<Longrightarrow> length g = ngroups r"
proof (induction s arbitrary: p)
  case Nil
  then have "(w, g, rest) \<in> set (matchesAt r [])" by (auto split: list.splits)
  then show ?case by (rule matchesAt_groups)
next
  case (Cons x xs)
  show ?case
  proof (cases "matchesAt r (x # xs)")
    case Nil
    with Cons.prems obtain p' where "exec r xs = Some (p', w, g, rest)" by auto
    then show ?thesis by (rule Cons.IH)
  next
    case (Cons m ms)
    with Cons.prems have "(w, g, rest) \<in> set (matchesAt r (x # xs))" by auto
    then show ?thesis by (rule matchesAt_groups)
  qed
qed

lemma findAll_sound: "(w, g) \<in> set (findAll r s) \<Longrightarrow> w \<in> lang r \<and> length g = ngroups r"
proof (induction r s rule: findAll.induct)
  case (1 r s)
  show ?case
  proof (cases "exec r s")
    case None
    with "1.prems" show ?thesis by (simp add: findAll.simps [of r s])
  next
    case (Some a)
    obtain p w' g' rest where a: "a = (p, w', g', rest)" by (cases a)
    from Some a have ex: "exec r s = Some (p, w', g', rest)" by simp
    from "1.prems" ex have "(w, g) = (w', g') \<or>
        (w' \<noteq> [] \<and> (w, g) \<in> set (findAll r rest)) \<or>
        (w' = [] \<and> (\<exists>c rest'. rest = c # rest' \<and> (w, g) \<in> set (findAll r rest')))"
      by (auto simp: findAll.simps [of r s] split: if_splits list.splits)
    then show ?thesis
    proof (elim disjE conjE exE)
      assume "(w, g) = (w', g')"
      with exec_Some [OF ex] exec_groups [OF ex] show ?thesis by simp
    next
      assume "w' \<noteq> []" "(w, g) \<in> set (findAll r rest)"
      with "1.IH"(1) [OF Some a [symmetric] refl refl] show ?thesis by simp
    next
      fix c rest'
      assume "w' = []" "rest = c # rest'" "(w, g) \<in> set (findAll r rest')"
      with "1.IH"(2) [OF Some a [symmetric] refl refl] show ?thesis by simp
    qed
  qed
qed

lemma exec_finds: "w \<in> lang r \<Longrightarrow> \<exists>p w' g rest. exec r (a @ w @ b) = Some (p, w', g, rest)"
  using exec_complete [of w r a b] by (cases "exec r (a @ w @ b)") auto

lemma mapE_total:
  "(\<And>x. x \<in> set xs \<Longrightarrow> \<exists>y. f x = Inr y) \<Longrightarrow> \<exists>ys. mapE f xs = Inr ys"
proof (induction xs)
  case Nil
  show ?case by simp
next
  case (Cons x xs)
  from Cons.prems [of x] obtain y where "f x = Inr y" by auto
  moreover from Cons.IH Cons.prems obtain ys where "mapE f xs = Inr ys" by auto
  ultimately show ?case by simp
qed

lemma mapE_elements:
  "mapE f xs = Inr ys \<Longrightarrow> y \<in> set ys \<Longrightarrow> \<exists>x\<in>set xs. f x = Inr y"
  by (induction xs arbitrary: ys) (auto split: sum.splits)

lemma match_g_sound:
  assumes "match_g r s = Some ms" and "m \<in> set ms"
  shows "m \<in> lang r"
proof -
  from assms(1) have "ms = map fst (findAll r s)"
    by (auto simp: match_g_def split: list.splits)
  with assms(2) obtain g where "(m, g) \<in> set (findAll r s)" by auto
  then show ?thesis by (simp add: findAll_sound)
qed

lemma index1_match1:
  "w \<in> lang r \<Longrightarrow> \<exists>v. index1 (match1 r (a @ w @ b)) = Inr v"
  using exec_finds [of w r a b] by (auto simp: index1_def match1_def)

lemma seq_langI: "u \<in> lang a \<Longrightarrow> v \<in> lang b \<Longrightarrow> u @ v \<in> lang (Seq a b)"
  by auto

lemma seq_lang_iff: "w \<in> lang (Seq a b) \<longleftrightarrow> (\<exists>u v. w = u @ v \<and> u \<in> lang a \<and> v \<in> lang b)"
  by auto

lemma lit_lang: "w \<in> lang (Lit t) \<longleftrightarrow> w = t"
  by simp

lemma attribute_lang:
  \<open>u \<in> lang (Group (Plus (AnyBut (CHR ''"'')))) \<Longrightarrow>
   name @ u @ ''"'' \<in> lang (Seq (Lit name) (Seq (Group (Plus (AnyBut (CHR ''"'')))) (Lit ''"'')))\<close>
  by (intro seq_langI) simp_all

lemma label_has_for:
  assumes "m \<in> lang labelPattern \<or> m \<in> lang labelForPattern"
  shows "\<exists>v. index1 (match1 forPattern m) = Inr v"
proof -
  from assms have \<open>\<exists>u b. m = ''<label for="'' @ u @ b \<and> (b = ''">'' \<or> b = ''"'') \<and>
      u \<in> lang (Group (Plus (AnyBut (CHR ''"''))))\<close>
    unfolding labelPattern_def labelForPattern_def by (simp only: seq_lang_iff lit_lang) blast
  then obtain u b where
    m: \<open>m = ''<label for="'' @ u @ b\<close> and b: \<open>b = ''">'' \<or> b = ''"''\<close> and
    u: \<open>u \<in> lang (Group (Plus (AnyBut (CHR ''"''))))\<close>
    by blast
  from b obtain b' where \<open>b = ''"'' @ b'\<close> by auto
  with m have \<open>m = ''<label '' @ (''for="'' @ u @ ''"'') @ b'\<close> by simp
  moreover from attribute_lang [OF u] have \<open>''for="'' @ u @ ''"'' \<in> lang forPattern\<close>
    by (simp only: forPattern_def)
  ultimately show ?thesis using index1_match1 by blast
qed

lemma input_has_id:
  assumes "m \<in> lang inputIdPattern"
  shows "\<exists>v. index1 (match1 idPattern m) = Inr v"
proof -
  from assms have \<open>\<exists>a u. m = ''<input'' @ a @ ''id="'' @ u @ ''"'' \<and>
      u \<in> lang (Group (Plus (AnyBut (CHR ''"''))))\<close>
    unfolding inputIdPattern_def by (simp only: seq_lang_iff lit_lang) blast
  then obtain a u where
    m: \<open>m = ''<input'' @ a @ ''id="'' @ u @ ''"''\<close> and
    u: \<open>u \<in> lang (Group (Plus (AnyBut (CHR ''"''))))\<close>
    by blast
  from m have \<open>m = (''<input'' @ a) @ (''id="'' @ u @ ''"'') @ []\<close> by simp
  moreover from attribute_lang [OF u] have \<open>''id="'' @ u @ ''"'' \<in> lang idPattern\<close>
    by (simp only: idPattern_def)
  ultimately show ?thesis using index1_match1 by blast
qed

lemma type_attribute_lang:
  \<open>t \<noteq> [] \<Longrightarrow> CHR ''"'' \<notin> set t \<Longrightarrow> ''type="'' @ t @ ''"'' \<in> lang typePattern\<close>
  unfolding typePattern_def by (rule attribute_lang) auto

lemma required_has_type:
  assumes "m \<in> lang requiredInputPattern"
  shows "\<exists>p w g rest. exec typePattern m = Some (p, w, g, rest)"
proof -
  from assms have \<open>\<exists>a t b. m = ''<input'' @ a @ t @ b \<and>
      t \<in> lang (Group (Alt (Lit ''type="text"'') (Alt (Lit ''type="email"'') (Lit ''type="number"''))))\<close>
    unfolding requiredInputPattern_def by (simp only: seq_lang_iff lit_lang) blast
  then obtain a t b where
    m: \<open>m = ''<input'' @ a @ t @ b\<close> and
    t: \<open>t \<in> lang (Group (Alt (Lit ''type="text"'') (Alt (Lit ''type="email"'') (Lit ''type="number"''))))\<close>
    by blast
  from t have \<open>t = ''type="'' @ ''text'' @ ''"'' \<or> t = ''type="'' @ ''email'' @ ''"'' \<or>
      t = ''type="'' @ ''number'' @ ''"''\<close>
    by auto
  then have "t \<in> lang typePattern"
    by (elim disjE) (simp_all only: type_attribute_lang list.set insert_iff empty_iff
        char.inject list.distinct simp_thms not_False_eq_True)
  moreover from m have \<open>m = (''<input'' @ a) @ t @ b\<close> by simp
  ultimately show ?thesis using exec_finds by blast
qed

lemma labelErrors_total:
  "\<exists>errs. labelErrors (match_g labelPattern s) (match_g inputIdPattern s) = Inr errs \<and>
     (\<forall>e\<in>set errs. \<exists>i. e = labelMessage i)"
proof (cases "match_g labelPattern s")
  case None
  then show ?thesis by (simp add: labelErrors_def)
next
  case ls: (Some ls)
  show ?thesis
  proof (cases "match_g inputIdPattern s")
    case None
    with ls show ?thesis by (simp add: labelErrors_def)
  next
    case "is": (Some "is")
    have "\<exists>v. index1 (match1 forPattern m) = Inr v" if "m \<in> set ls" for m
      using match_g_sound [OF ls that] by (simp add: label_has_for)
    from mapE_total [of ls "\<lambda>m. index1 (match1 forPattern m)", OF this] obtain labelIds where
      1: "mapE (\<lambda>m. index1 (match1 forPattern m)) ls = Inr labelIds" by blast
    have "\<exists>v. index1 (match1 idPattern m) = Inr v" if "m \<in> set is" for m
      using match_g_sound [OF "is" that] by (simp add: input_has_id)
    from mapE_total [of "is" "\<lambda>m. index1 (match1 idPattern m)", OF this] obtain inputIds where
      2: "mapE (\<lambda>m. index1 (match1 idPattern m)) is = Inr inputIds" by blast
    from ls "is" 1 2 show ?thesis by (auto simp: labelErrors_def)
  qed
qed

lemma requiredErrors_total:
  "\<exists>errs. requiredErrors (match_g requiredInputPattern s) = Inr errs \<and>
     (\<forall>e\<in>set errs. \<exists>t. e = requiredMessage t)"
proof (cases "match_g requiredInputPattern s")
  case None
  then show ?thesis by (simp add: requiredErrors_def)
next
  case (Some inputs)
  let ?f = "\<lambda>input. case index1 (match1 typePattern input) of
              Inl e \<Rightarrow> Inl e | Inr t \<Rightarrow> Inr (requiredMessage (toStr t))"
  let ?xs = "filter (\<lambda>input. \<not> str_includes input ''required'') inputs"
  have "\<exists>y. ?f m = Inr y" if "m \<in> set ?xs" for m
  proof -
    from that have "m \<in> set inputs" by simp
    from match_g_sound [OF Some this] have "m \<in> lang requiredInputPattern" .
    from required_has_type [OF this] show ?thesis by (auto simp: index1_def match1_def)
  qed
  from mapE_total [of ?xs ?f, OF this] obtain errs where errs: "mapE ?f ?xs = Inr errs" by blast
  have "\<exists>t. e = requiredMessage t" if "e \<in> set errs" for e
  proof -
    from mapE_elements [OF errs that] obtain x where "?f x = Inr e" by blast
    then show ?thesis by (cases "index1 (match1 typePattern x)") auto
  qed
  with Some errs show ?thesis by (auto simp: requiredErrors_def)
qed

lemma validateFormStructure_total:
  \<open>\<exists>labelErrs requiredErrs.
     validateFormStructure htmlContent =
       Inr ((if str_includes htmlContent ''</input>'' then [voidMessage] else []) @
            labelErrs @ requiredErrs @
            (if \<not> str_includes htmlContent ''type="email"'' then [emailMessage] else [])) \<and>
     (\<forall>e\<in>set labelErrs. \<exists>i. e = labelMessage i) \<and>
     (\<forall>e\<in>set requiredErrs. \<exists>t. e = requiredMessage t)\<close>
proof -
  from labelErrors_total [of htmlContent] obtain labelErrs where
    1: "labelErrors (match_g labelPattern htmlContent) (match_g inputIdPattern htmlContent) = Inr labelErrs"
    and 2: "\<forall>e\<in>set labelErrs. \<exists>i. e = labelMessage i" by blast
  from requiredErrors_total [of htmlContent] obtain requiredErrs where
    3: "requiredErrors (match_g requiredInputPattern htmlContent) = Inr requiredErrs"
    and 4: "\<forall>e\<in>set requiredErrs. \<exists>t. e = requiredMessage t" by blast
  from 1 3 have \<open>validateFormStructure htmlContent =
       Inr ((if str_includes htmlContent ''</input>'' then [voidMessage] else []) @
            labelErrs @ requiredErrs @
            (if \<not> str_includes htmlContent ''type="email"'' then [emailMessage] else []))\<close>
    by (simp add: validateFormStructure_def)
  with 2 4 show ?thesis by blast
qed

lemma checkLabelInputAssociation_total: "\<exists>b. checkLabelInputAssociation htmlContent = Inr b"
proof -
  let ?ls = "case match_g labelForPattern htmlContent of None \<Rightarrow> [] | Some ms \<Rightarrow> ms"
  let ?is = "case match_g inputIdPattern htmlContent of None \<Rightarrow> [] | Some ms \<Rightarrow> ms"
  have "\<exists>v. index1 (match1 forPattern m) = Inr v" if "m \<in> set ?ls" for m
  proof (cases "match_g labelForPattern htmlContent")
    case None
    with that show ?thesis by simp
  next
    case (Some ms)
    with that have "m \<in> set ms" by simp
    from match_g_sound [OF Some this] show ?thesis by (simp add: label_has_for)
  qed
  from mapE_total [of ?ls "\<lambda>m. index1 (match1 forPattern m)", OF this] obtain labelFors where
    1: "mapE (\<lambda>m. index1 (match1 forPattern m)) ?ls = Inr labelFors" by blast
  have "\<exists>v. index1 (match1 idPattern m) = Inr v" if "m \<in> set ?is" for m
  proof (cases "match_g inputIdPattern htmlContent")
    case None
    with that show ?thesis by simp
  next
    case (Some ms)
    with that have "m \<in> set ms" by simp
    from match_g_sound [OF Some this] show ?thesis by (simp add: input_has_id)
  qed
  from mapE_total [of ?is "\<lambda>m. index1 (match1 idPattern m)", OF this] obtain inputIds where
    2: "mapE (\<lambda>m. index1 (match1 idPattern m)) ?is = Inr inputIds" by blast
  from 1 2 show ?thesis by (simp add: checkLabelInputAssociation_def)
qed

lemma group1_total:
  assumes "\<And>m. m \<in> set ms \<Longrightarrow> length (snd m) = 1"
  shows "\<exists>vs. mapE (group_java 1) ms = Inr vs"
proof (rule mapE_total)
  fix m assume "m \<in> set ms"
  from assms [OF this] show "\<exists>v. group_java 1 m = Inr v" by (simp add: group_java_def)
qed

lemma findAll_group1_total:
  assumes "ngroups r = 1"
  shows "\<exists>vs. mapE (group_java 1) (findAll r s) = Inr vs"
proof (rule group1_total)
  fix m assume "m \<in> set (findAll r s)"
  then have "(fst m, snd m) \<in> set (findAll r s)" by simp
  from findAll_sound [OF this] assms show "length (snd m) = 1" by simp
qed

lemma requiredErrors_java_total:
  "\<exists>errs. requiredErrors_java (findAll requiredInputPattern s) = Inr errs \<and>
     (\<forall>e\<in>set errs. \<exists>t. e = requiredMessage t)"
proof -
  let ?f = "\<lambda>m :: string \<times> groups. if str_includes (fst m) ''required'' then Inr []
              else (case exec typePattern (fst m) of
                      None \<Rightarrow> Inr []
                    | Some (p, w, g, rest) \<Rightarrow>
                        (case group_java 1 (w, g) of
                           Inl e \<Rightarrow> Inl e
                         | Inr t \<Rightarrow> Inr [requiredMessage (str_java t)]))"
  have step: "\<exists>es. ?f m = Inr es \<and> (\<forall>e\<in>set es. \<exists>t. e = requiredMessage t)" for m
  proof (cases "exec typePattern (fst m)")
    case None
    then show ?thesis by simp
  next
    case (Some a)
    obtain p w g rest where a: "a = (p, w, g, rest)" by (cases a)
    with Some have "length g = ngroups typePattern" by (simp add: exec_groups)
    then have "\<exists>v. group_java 1 (w, g) = Inr v" by (simp add: group_java_def typePattern_def)
    with Some a show ?thesis by auto
  qed
  then have "\<exists>es. ?f m = Inr es" for m by blast
  then obtain ess where ess: "mapE ?f (findAll requiredInputPattern s) = Inr ess"
    using mapE_total [of "findAll requiredInputPattern s" ?f] by blast
  have "\<exists>t. e = requiredMessage t" if "e \<in> set (concat ess)" for e
  proof -
    from that obtain es where "es \<in> set ess" "e \<in> set es" by auto
    from mapE_elements [OF ess this(1)] obtain m where "?f m = Inr es" by blast
    with step [of m] \<open>e \<in> set es\<close> show ?thesis by auto
  qed
  with ess show ?thesis by (auto simp: requiredErrors_java_def)
qed

lemma validateFormStructure_java_total:
  \<open>\<exists>ls is requiredErrs.
     mapE (group_java 1) (findAll labelPattern htmlContent) = Inr ls \<and>
     mapE (group_java 1) (findAll inputIdPattern htmlContent) = Inr is \<and>
     validateFormStructure_java htmlContent =
       Inr ((if str_includes htmlContent ''</input>'' then [voidMessage] else []) @
            map (\<lambda>labelId. labelMessage (str_java labelId))
              (filter (\<lambda>labelId. labelId \<notin> set is) (remdups ls)) @
            requiredErrs @
            (if \<not> str_includes htmlContent ''type="email"'' then [emailMessage] else [])) \<and>
     (\<forall>e\<in>set requiredErrs. \<exists>t. e = requiredMessage t)\<close>
proof -
  from findAll_group1_total [of labelPattern htmlContent] obtain ls where
    1: "mapE (group_java 1) (findAll labelPattern htmlContent) = Inr ls"
    by (auto simp: labelPattern_def)
  from findAll_group1_total [of inputIdPattern htmlContent] obtain "is" where
    2: "mapE (group_java 1) (findAll inputIdPattern htmlContent) = Inr is"
    by (auto simp: inputIdPattern_def)
  from requiredErrors_java_total [of htmlContent] obtain requiredErrs where
    3: "requiredErrors_java (findAll requiredInputPattern htmlContent) = Inr requiredErrs"
    and 4: "\<forall>e\<in>set requiredErrs. \<exists>t. e = requiredMessage t" by blast
  from 1 2 3 have \<open>validateFormStructure_java htmlContent =
       Inr ((if str_includes htmlContent ''</input>'' then [voidMessage] else []) @
            map (\<lambda>labelId. labelMessage (str_java labelId))
              (filter (\<lambda>labelId. labelId \<notin> set is) (remdups ls)) @
            requiredErrs @
            (if \<not> str_includes htmlContent ''type="email"'' then [emailMessage] else []))\<close>
    by (simp add: validateFormStructure_java_def)
  with 1 2 4 show ?thesis by blast
qed

lemma checkLabelInputAssociation_java_total:
  "\<exists>b. checkLabelInputAssociation_java htmlContent = Inr b"
proof -
  from findAll_group1_total [of labelForPattern htmlContent] obtain ls where
    1: "mapE (group_java 1) (findAll labelForPattern htmlContent) = Inr ls"
    by (auto simp: labelForPattern_def)
  from findAll_group1_total [of inputIdPattern htmlContent] obtain "is" where
    2: "mapE (group_java 1) (findAll inputIdPattern htmlContent) = Inr is"
    by (auto simp: inputIdPattern_def)
  from 1 2 show ?thesis by (simp add: checkLabelInputAssociation_java_def)
qed

lemma emailMessage_distinct:
  "emailMessage \<noteq> voidMessage" "emailMessage \<noteq> labelMessage i" "emailMessage \<noteq> requiredMessage t"
  by (simp_all add: emailMessage_def voidMessage_def labelMessage_def requiredMessage_def)

text \<open>
  Where the label check runs, it reports every label target that is not among the input
  ids; the Java class reports them in every case.
\<close>

lemma js_reports_orphan_label_when_some_input_has_id:
  assumes "match_g labelPattern htmlContent = Some ls"
      and "match_g inputIdPattern htmlContent = Some is"
      and "mapE (\<lambda>m. index1 (match1 forPattern m)) ls = Inr labelIds"
      and "mapE (\<lambda>m. index1 (match1 idPattern m)) is = Inr inputIds"
      and "labelId \<in> set labelIds" and "labelId \<notin> set inputIds"
  shows "\<exists>errs. validateFormStructure htmlContent = Inr errs \<and>
           labelMessage (toStr labelId) \<in> set errs"
proof -
  from requiredErrors_total [of htmlContent] obtain requiredErrs where
    "requiredErrors (match_g requiredInputPattern htmlContent) = Inr requiredErrs" by blast
  with assms show ?thesis
    by (auto simp: validateFormStructure_def labelErrors_def)
qed

lemma java_reports_every_orphan_label:
  assumes "mapE (group_java 1) (findAll labelPattern htmlContent) = Inr labelIds"
      and "mapE (group_java 1) (findAll inputIdPattern htmlContent) = Inr inputIds"
      and "labelId \<in> set labelIds" and "labelId \<notin> set inputIds"
  shows "\<exists>errs. validateFormStructure_java htmlContent = Inr errs \<and>
           labelMessage (str_java labelId) \<in> set errs"
proof -
  from validateFormStructure_java_total [of htmlContent] assms(1,2) obtain requiredErrs where
    \<open>validateFormStructure_java htmlContent =
       Inr ((if str_includes htmlContent ''</input>'' then [voidMessage] else []) @
            map (\<lambda>labelId. labelMessage (str_java labelId))
              (filter (\<lambda>labelId. labelId \<notin> set inputIds) (remdups labelIds)) @
            requiredErrs @
            (if \<not> str_includes htmlContent ''type="email"'' then [emailMessage] else []))\<close>
    by auto
  with assms(3,4) show ?thesis by auto
qed

text \<open>\<^const>\<open>str_includes\<close> is the substring relation.\<close>

lemma str_includes_iff: "str_includes s t \<longleftrightarrow> (\<exists>a b. s = a @ t @ b)"
proof (induction s)
  case Nil
  show ?case by auto
next
  case (Cons c cs)
  show ?case
  proof
    assume "str_includes (c # cs) t"
    then have "prefix t (c # cs) \<or> str_includes cs t" by simp
    then show "\<exists>a b. c # cs = a @ t @ b"
    proof
      assume "prefix t (c # cs)"
      then obtain b where "c # cs = [] @ t @ b" by (auto simp: prefix_def)
      then show ?thesis by blast
    next
      assume "str_includes cs t"
      with Cons.IH obtain a b where "cs = a @ t @ b" by blast
      then have "c # cs = (c # a) @ t @ b" by simp
      then show ?thesis by blast
    qed
  next
    assume "\<exists>a b. c # cs = a @ t @ b"
    then obtain a b where ab: "c # cs = a @ t @ b" by blast
    show "str_includes (c # cs) t"
    proof (cases a)
      case Nil
      with ab have "prefix t (c # cs)" by (simp add: prefix_def)
      then show ?thesis by simp
    next
      case (Cons x a')
      with ab have "cs = a' @ t @ b" by simp
      with Cons.IH have "str_includes cs t" by blast
      then show ?thesis by simp
    qed
  qed
qed

lemma findAll_empty_iff: "findAll r s = [] \<longleftrightarrow> exec r s = None"
  by (subst findAll.simps) (auto split: option.splits)

lemma no_label_text_no_match:
  assumes \<open>\<not> str_includes htmlContent ''<label for="''\<close>
  shows "findAll labelForPattern htmlContent = []"
proof (rule ccontr)
  assume "findAll labelForPattern htmlContent \<noteq> []"
  then obtain p w g rest where e: "exec labelForPattern htmlContent = Some (p, w, g, rest)"
    by (auto simp: findAll_empty_iff)
  from exec_Some [OF e] have s: "htmlContent = p @ w @ rest" and w: "w \<in> lang labelForPattern"
    by simp_all
  from w obtain v where \<open>w = ''<label for="'' @ v\<close>
    unfolding labelForPattern_def by (auto simp only: seq_lang_iff lit_lang)
  with s have \<open>htmlContent = p @ ''<label for="'' @ (v @ rest)\<close> by simp
  then have \<open>str_includes htmlContent ''<label for="''\<close>
    unfolding str_includes_iff by blast
  with assms show False by simp
qed

section \<open>Running the matcher on a given text\<close>

text \<open>
  Equations that step through a text one character at a time. They are consequences of
  the definitions above and serve to evaluate the functions on the two documents of
  the repository.
\<close>

fun nextFrom :: "regex \<Rightarrow> attempt list \<Rightarrow> string \<Rightarrow> (string \<times> groups) list" where
  "nextFrom r [] xs = findAll r xs"
| "nextFrom r ((w, g, rest) # ms) xs = (w, g) # (if w = [] then findAll r xs else findAll r rest)"

fun starThen :: "cclass \<Rightarrow> regex \<Rightarrow> string \<Rightarrow> (string \<times> attempt) list" where
  "starThen c r [] = map (Pair []) (matchesAt r [])"
| "starThen c r (x # xs) =
     (if inClass c x then map (\<lambda>(t, m). (x # t, m)) (starThen c r xs) else []) @
     map (Pair []) (matchesAt r (x # xs))"

definition plusThen :: "cclass \<Rightarrow> regex \<Rightarrow> string \<Rightarrow> (string \<times> attempt) list" where
  "plusThen c r s =
     (case s of
        [] \<Rightarrow> []
      | x # xs \<Rightarrow> if inClass c x then map (\<lambda>(t, m). (x # t, m)) (starThen c r xs) else [])"

fun replaceNext :: "regex \<Rightarrow> string \<Rightarrow> attempt list \<Rightarrow> char \<Rightarrow> string \<Rightarrow> error + string" where
  "replaceNext r replacement [] x xs =
     (case replaceAll xs r replacement of Inl e \<Rightarrow> Inl e | Inr u \<Rightarrow> Inr (x # u))"
| "replaceNext r replacement ((w, g, rest) # ms) x xs =
     (case expand replacement (Some w # g) of
        Inl e \<Rightarrow> Inl e
      | Inr t \<Rightarrow>
          (case (if w = [] then (case replaceAll xs r replacement of
                                  Inl e \<Rightarrow> Inl e
                                | Inr u \<Rightarrow> Inr (x # u))
                 else replaceAll rest r replacement) of
             Inl e \<Rightarrow> Inl e
           | Inr tail \<Rightarrow> Inr (t @ tail)))"

lemma findAll_Nil:
  "findAll r [] = (case matchesAt r [] of [] \<Rightarrow> [] | (w, g, rest) # _ \<Rightarrow> [(w, g)])"
proof (cases "matchesAt r []")
  case Nil
  then show ?thesis by (subst findAll.simps) simp
next
  case (Cons m ms)
  obtain w g rest where m: "m = (w, g, rest)" by (cases m)
  with Cons have "(w, g, rest) \<in> set (matchesAt r [])" by simp
  from matchesAt_sound [OF this] have "w = []" "rest = []" by simp_all
  with Cons m show ?thesis by (subst findAll.simps) simp
qed

lemma findAll_Cons: "findAll r (x # xs) = nextFrom r (matchesAt r (x # xs)) xs"
proof (cases "matchesAt r (x # xs)")
  case Nil
  have "findAll r (x # xs) = findAll r xs"
    by (subst findAll.simps, subst (2) findAll.simps) (simp add: Nil split: option.splits)
  with Nil show ?thesis by simp
next
  case (Cons m ms)
  obtain w g rest where m: "m = (w, g, rest)" by (cases m)
  with Cons have "(w, g, rest) \<in> set (matchesAt r (x # xs))" by simp
  from matchesAt_sound [OF this] have "x # xs = w @ rest" by simp
  then have "w = [] \<Longrightarrow> rest = x # xs" by simp
  with Cons m show ?thesis
    by (subst findAll.simps) (auto split: option.splits list.splits)
qed

lemma findAll_skip:
  "findAll (Seq (Lit (c # t)) r) (x # xs) =
     (if x = c then nextFrom (Seq (Lit (c # t)) r) (matchesAt (Seq (Lit (c # t)) r) (x # xs)) xs
      else findAll (Seq (Lit (c # t)) r) xs)"
  by (simp add: findAll_Cons)

lemma exec_skip:
  "exec (Seq (Lit (c # t)) r) (x # xs) =
     (if x = c then
        (case matchesAt (Seq (Lit (c # t)) r) (x # xs) of
           m # _ \<Rightarrow> Some ([], m)
         | [] \<Rightarrow> map_option (\<lambda>(p, m). (x # p, m)) (exec (Seq (Lit (c # t)) r) xs))
      else map_option (\<lambda>(p, m). (x # p, m)) (exec (Seq (Lit (c # t)) r) xs))"
  by simp

lemma exec_skip_lit:
  "exec (Lit (c # t)) (x # xs) =
     (if x = c then
        (case matchesAt (Lit (c # t)) (x # xs) of
           m # _ \<Rightarrow> Some ([], m)
         | [] \<Rightarrow> map_option (\<lambda>(p, m). (x # p, m)) (exec (Lit (c # t)) xs))
      else map_option (\<lambda>(p, m). (x # p, m)) (exec (Lit (c # t)) xs))"
  by simp

lemma replaceAll_None: "exec r s = None \<Longrightarrow> replaceAll s r replacement = Inr s"
  by (subst replaceAll.simps) simp

lemma replaceAll_Nil:
  "replaceAll [] r replacement =
     (case matchesAt r [] of
        [] \<Rightarrow> Inr []
      | (w, g, rest) # _ \<Rightarrow> expand replacement (Some w # g))"
proof (cases "matchesAt r []")
  case Nil
  then show ?thesis by (subst replaceAll.simps) simp
next
  case (Cons m ms)
  obtain w g rest where m: "m = (w, g, rest)" by (cases m)
  with Cons have "(w, g, rest) \<in> set (matchesAt r [])" by simp
  from matchesAt_sound [OF this] have "w = []" "rest = []" by simp_all
  with Cons m show ?thesis by (subst replaceAll.simps) (simp split: sum.splits)
qed

lemma replaceAll_Cons:
  "replaceAll (x # xs) r replacement = replaceNext r replacement (matchesAt r (x # xs)) x xs"
proof (cases "matchesAt r (x # xs)")
  case Nil
  then have E: "exec r (x # xs) = map_option (\<lambda>(p, m). (x # p, m)) (exec r xs)" by simp
  show ?thesis
  proof (cases "exec r xs")
    case None
    with Nil E show ?thesis
      by (simp add: replaceAll.simps [of "x # xs"] replaceAll.simps [of xs])
  next
    case (Some a)
    obtain p w g rest where "a = (p, w, g, rest)" by (cases a)
    with Nil E Some show ?thesis
      by (simp add: replaceAll.simps [of "x # xs"] replaceAll.simps [of xs] split: sum.splits)
  qed
next
  case (Cons m ms)
  obtain w g rest where m: "m = (w, g, rest)" by (cases m)
  with Cons have "(w, g, rest) \<in> set (matchesAt r (x # xs))" by simp
  from matchesAt_sound [OF this] have "x # xs = w @ rest" by simp
  then have "w = [] \<Longrightarrow> rest = x # xs" by simp
  with Cons m show ?thesis
    by (subst replaceAll.simps) (auto split: option.splits list.splits sum.splits)
qed

lemma replaceAll_skip:
  "replaceAll (x # xs) (Seq (Lit (c # t)) r) replacement =
     (if x = c then
        replaceNext (Seq (Lit (c # t)) r) replacement (matchesAt (Seq (Lit (c # t)) r) (x # xs)) x xs
      else (case replaceAll xs (Seq (Lit (c # t)) r) replacement of
              Inl e \<Rightarrow> Inl e
            | Inr u \<Rightarrow> Inr (x # u)))"
  by (simp add: replaceAll_Cons)

lemma replaceAll_skip_lit:
  "replaceAll (x # xs) (Lit (c # t)) replacement =
     (if x = c then replaceNext (Lit (c # t)) replacement (matchesAt (Lit (c # t)) (x # xs)) x xs
      else (case replaceAll xs (Lit (c # t)) replacement of
              Inl e \<Rightarrow> Inl e
            | Inr u \<Rightarrow> Inr (x # u)))"
  by (simp add: replaceAll_Cons)

lemma starThen_star:
  "starThen c r s = concat (map (\<lambda>(t, rest). map (Pair t) (matchesAt r rest)) (star c s))"
  by (induction s) (simp_all add: map_concat comp_def split_def)

lemma plusThen_star:
  "plusThen c r s =
     concat (map (\<lambda>(t, rest). map (Pair t) (matchesAt r rest))
       (filter (\<lambda>(t, r). t \<noteq> []) (star c s)))"
  by (cases s) (simp_all add: plusThen_def starThen_star map_concat comp_def split_def filter_map)

lemma seq_lit:
  "matchesAt (Seq (Lit t) r) s =
     (if prefix t s then map (\<lambda>(w, g, rest). (t @ w, g, rest)) (matchesAt r (drop (length t) s))
      else [])"
  by simp

lemma seq_star:
  "matchesAt (Seq (Star c) r) s = map (\<lambda>(t, w, g, rest). (t @ w, g, rest)) (starThen c r s)"
  by (simp add: starThen_star map_concat comp_def split_def)

lemma seq_plus:
  "matchesAt (Seq (Plus c) r) s = map (\<lambda>(t, w, g, rest). (t @ w, g, rest)) (plusThen c r s)"
  by (simp add: plusThen_star map_concat comp_def split_def)

lemma seq_group_plus:
  "matchesAt (Seq (Group (Plus c)) r) s =
     map (\<lambda>(t, w, g, rest). (t @ w, Some t # g, rest)) (plusThen c r s)"
  by (simp add: plusThen_star map_concat comp_def split_def)

lemma seq_group_alt:
  "matchesAt (Seq (Group (Alt a b)) r) s =
     concat (map (\<lambda>(w, g, rest).
       map (\<lambda>(w', g', rest'). (w @ w', g @ g', rest')) (matchesAt r rest))
         (matchesAt (Group (Alt a b)) s))"
  by simp

lemmas ev =
  findAll_skip findAll_Nil nextFrom.simps exec_skip exec_skip_lit exec.simps(1)
  replaceAll_skip replaceAll_skip_lit replaceAll_Nil replaceNext.simps
  seq_lit seq_star seq_plus seq_group_plus seq_group_alt
  starThen.simps plusThen_def matchesAt.simps(1-5) inClass.simps ngroups.simps
  str_includes.simps Cons_prefix_Cons Nil_prefix prefix_Nil
  list.map concat.simps filter.simps append.simps drop_Suc_Cons drop_0 list.size replicate.simps
  case_prod_conv list.case option.case sum.case option.map if_True if_False
  char.inject simp_thms list.distinct list.inject prod.inject option.inject option.distinct
  sum.inject sum.distinct error.distinct
  add_Suc add_0 add_Suc_right add_0_right list.set insert_iff empty_iff

lemmas ev_cong = if_weak_cong list.case_cong_weak option.case_cong_weak sum.case_cong_weak
  prod.case_cong_weak


subsection \<open>The matches in the two documents\<close>

lemma corrected_labelPattern:
  \<open>findAll labelPattern generateCorrectedHTML =
   [(''<label for="fullName">'', [Some ''fullName'']),
    (''<label for="emailAddress">'', [Some ''emailAddress'']),
    (''<label for="donationAmount">'', [Some ''donationAmount'']),
    (''<label for="subscribe">'', [Some ''subscribe''])]\<close>
  unfolding generateCorrectedHTML_def labelPattern_def
  by (simp only: ev cong: ev_cong)

lemma corrected_inputIdPattern:
  \<open>findAll inputIdPattern generateCorrectedHTML =
   [(''<input type="text" id="fullName"'', [Some ''fullName'']),
    (''<input type="email" id="emailAddress"'', [Some ''emailAddress'']),
    (''<input type="number" id="donationAmount"'', [Some ''donationAmount'']),
    (''<input type="checkbox" id="subscribe"'', [Some ''subscribe''])]\<close>
  unfolding generateCorrectedHTML_def inputIdPattern_def
  by (simp only: ev cong: ev_cong)

lemma corrected_requiredInputPattern:
  \<open>findAll requiredInputPattern generateCorrectedHTML =
   [(''<input type="text" id="fullName" name="name" required>'', [Some ''type="text"'']),
    (''<input type="email" id="emailAddress" name="email" required>'', [Some ''type="email"'']),
    (''<input type="number" id="donationAmount" name="amount" required>'', [Some ''type="number"''])]\<close>
  unfolding generateCorrectedHTML_def requiredInputPattern_def
  by (simp only: ev cong: ev_cong)

lemma corrected_inputPattern:
  \<open>findAll inputPattern generateCorrectedHTML =
   [(''<input type="text" id="fullName" name="name" required>'', []),
    (''<input type="email" id="emailAddress" name="email" required>'', []),
    (''<input type="number" id="donationAmount" name="amount" required>'', []),
    (''<input type="checkbox" id="subscribe" name="newsletter">'', []),
    (''<input type="submit" value="Send">'', [])]\<close>
  unfolding generateCorrectedHTML_def inputPattern_def
  by (simp only: ev cong: ev_cong)

lemma corrected_labelTagPattern:
  \<open>findAll labelTagPattern generateCorrectedHTML =
   [(''<label for="fullName">'', []),
    (''<label for="emailAddress">'', []),
    (''<label for="donationAmount">'', []),
    (''<label for="subscribe">'', [])]\<close>
  unfolding generateCorrectedHTML_def labelTagPattern_def
  by (simp only: ev cong: ev_cong)

lemma corrected_labelForPattern:
  \<open>findAll labelForPattern generateCorrectedHTML =
   [(''<label for="fullName"'', [Some ''fullName'']),
    (''<label for="emailAddress"'', [Some ''emailAddress'']),
    (''<label for="donationAmount"'', [Some ''donationAmount'']),
    (''<label for="subscribe"'', [Some ''subscribe''])]\<close>
  unfolding generateCorrectedHTML_def labelForPattern_def
  by (simp only: ev cong: ev_cong)

lemma original_labelPattern:
  \<open>findAll labelPattern originalHTML = []\<close>
  unfolding originalHTML_def labelPattern_def
  by (simp only: ev cong: ev_cong)

lemma original_inputIdPattern:
  \<open>findAll inputIdPattern originalHTML = []\<close>
  unfolding originalHTML_def inputIdPattern_def
  by (simp only: ev cong: ev_cong)

lemma original_requiredInputPattern:
  \<open>findAll requiredInputPattern originalHTML =
   [(''<input type="text" name="name">'', [Some ''type="text"'']),
    (''<input type="text" name="email">'', [Some ''type="text"'']),
    (''<input type="number" name="amount">'', [Some ''type="number"''])]\<close>
  unfolding originalHTML_def requiredInputPattern_def
  by (simp only: ev cong: ev_cong)

lemma original_inputPattern:
  \<open>findAll inputPattern originalHTML =
   [(''<input type="text" name="name">'', []),
    (''<input type="text" name="email">'', []),
    (''<input type="number" name="amount">'', []),
    (''<input type="checkbox" name="newsletter">'', []),
    (''<input type="submit" value="Send">'', [])]\<close>
  unfolding originalHTML_def inputPattern_def
  by (simp only: ev cong: ev_cong)

lemma original_labelTagPattern:
  \<open>findAll labelTagPattern originalHTML = []\<close>
  unfolding originalHTML_def labelTagPattern_def
  by (simp only: ev cong: ev_cong)

lemma original_labelForPattern:
  \<open>findAll labelForPattern originalHTML = []\<close>
  unfolding originalHTML_def labelForPattern_def
  by (simp only: ev cong: ev_cong)

lemma corrected_checkbox_required: "exec checkboxRequiredPattern generateCorrectedHTML = None"
  unfolding generateCorrectedHTML_def checkboxRequiredPattern_def
  by (simp only: ev cong: ev_cong)

lemma corrected_submit_required: "exec submitRequiredPattern generateCorrectedHTML = None"
  unfolding generateCorrectedHTML_def submitRequiredPattern_def
  by (simp only: ev cong: ev_cong)

lemma corrected_no_closing_tag: \<open>exec (Lit ''</input>'') generateCorrectedHTML = None\<close>
  unfolding generateCorrectedHTML_def
  by (simp only: ev cong: ev_cong)

lemma corrected_no_text_email: "exec emailInputPattern generateCorrectedHTML = None"
  unfolding generateCorrectedHTML_def emailInputPattern_def
  by (simp only: ev cong: ev_cong)

lemma corrected_no_bare_name: "exec fullNamePattern generateCorrectedHTML = None"
  unfolding generateCorrectedHTML_def fullNamePattern_def
  by (simp only: ev cong: ev_cong)

lemma corrected_no_bare_amount: "exec donationAmountPattern generateCorrectedHTML = None"
  unfolding generateCorrectedHTML_def donationAmountPattern_def
  by (simp only: ev cong: ev_cong)

lemma corrected_no_bare_checkbox: "exec subscribePattern generateCorrectedHTML = None"
  unfolding generateCorrectedHTML_def subscribePattern_def
  by (simp only: ev cong: ev_cong)

lemma corrected_closing_tags: \<open>str_includes generateCorrectedHTML ''</input>'' = False\<close>
  unfolding generateCorrectedHTML_def by (simp only: ev cong: ev_cong)

lemma corrected_email_type: \<open>str_includes generateCorrectedHTML ''type="email"'' = True\<close>
  unfolding generateCorrectedHTML_def by (simp only: ev cong: ev_cong)

lemma original_closing_tags: \<open>str_includes originalHTML ''</input>'' = True\<close>
  unfolding originalHTML_def by (simp only: ev cong: ev_cong)

lemma original_email_type: \<open>str_includes originalHTML ''type="email"'' = False\<close>
  unfolding originalHTML_def by (simp only: ev cong: ev_cong)

lemmas small = match_g_def match1_def index1_def toStr_def group_java_def str_java_def
  labelErrors_def requiredErrors_def requiredErrors_java_def
  forPattern_def idPattern_def typePattern_def

lemma match_or_empty:
  "(case match_g r s of None \<Rightarrow> [] | Some ms \<Rightarrow> ms) = map fst (findAll r s)"
  by (simp add: match_g_def split: list.splits)

lemma corrected_association:
  "checkLabelInputAssociation generateCorrectedHTML = Inr True"
  "checkLabelInputAssociation_java generateCorrectedHTML = Inr True"
  by (simp_all add: checkLabelInputAssociation_def checkLabelInputAssociation_java_def small
      corrected_labelForPattern corrected_inputIdPattern)

subsection \<open>The fix transform on the two documents\<close>

lemma not_digit_paren: \<open>isDigit (CHR '')'') = False\<close>
  by (simp add: isDigit_def)

lemmas ev_fix = fixFormHTML_def replacements_def applyReplacements.simps emailInputPattern_def
  fullNamePattern_def donationAmountPattern_def subscribePattern_def
  expand.simps not_digit_paren

lemma fix_sample: "fixFormHTML originalHTML = Inl IllegalArgumentException"
  unfolding originalHTML_def
  by (simp only: ev_fix ev cong: ev_cong)

lemma fix_reference: "fixFormHTML generateCorrectedHTML = Inr generateCorrectedHTML"
  by (simp add: fixFormHTML_def replacements_def replaceAll_None corrected_no_closing_tag
      corrected_no_text_email corrected_no_bare_name corrected_no_bare_amount
      corrected_no_bare_checkbox)

lemma sample_diagnostics:
  "validateFormStructure originalHTML =
     Inr [voidMessage, requiredMessage ''text'', requiredMessage ''text'',
          requiredMessage ''number'', emailMessage]"
  "validateFormStructure_java originalHTML =
     Inr [voidMessage, requiredMessage ''text'', requiredMessage ''text'',
          requiredMessage ''number'', emailMessage]"
  by (simp_all add: validateFormStructure_def validateFormStructure_java_def small
      original_labelPattern original_inputIdPattern original_requiredInputPattern
      original_closing_tags original_email_type)

section \<open>The claims of the specification\<close>

text \<open>
  C1 (as amended). On the defective sample markup of the usage examples,
  \<^verbatim>\<open>validateFormStructure\<close> returns a non-empty sequence of diagnostics that contains the
  diagnostic for closing tags on void elements and the email-type diagnostic, and no
  diagnostic that names an unassociated field identifier: the sample has no label at all,
  so the label check has nothing to report. The same holds in the Java class.
\<close>

theorem sample_has_no_label_diagnostic:
  "(\<exists>errs. validateFormStructure originalHTML = Inr errs \<and> errs \<noteq> [] \<and>
      voidMessage \<in> set errs \<and> emailMessage \<in> set errs \<and>
      (\<forall>i. labelMessage i \<notin> set errs)) \<and>
   (\<exists>errs. validateFormStructure_java originalHTML = Inr errs \<and> errs \<noteq> [] \<and>
      voidMessage \<in> set errs \<and> emailMessage \<in> set errs \<and>
      (\<forall>i. labelMessage i \<notin> set errs))"
  by (simp add: sample_diagnostics)
     (simp add: labelMessage_def voidMessage_def requiredMessage_def emailMessage_def)

text \<open>
  C1 as the specification states it asks for diagnostics naming two unassociated field
  identifiers. The diagnostics of the sample are exactly these five, in both classes, and
  the label pattern matches nowhere in it.
\<close>

theorem sample_diagnostics_counterexample:
  "validateFormStructure originalHTML =
     Inr [voidMessage, requiredMessage ''text'', requiredMessage ''text'',
          requiredMessage ''number'', emailMessage] \<and>
   validateFormStructure_java originalHTML =
     Inr [voidMessage, requiredMessage ''text'', requiredMessage ''text'',
          requiredMessage ''number'', emailMessage] \<and>
   findAll labelPattern originalHTML = []"
  by (simp add: sample_diagnostics original_labelPattern)

text \<open>
  C2. The specification says that no operation raises an error, and that
  \<^verbatim>\<open>fixFormHTML\<close> on the sample returns a string. The three validators do always return
  (shown above for every markup), but \<^verbatim>\<open>fixFormHTML\<close> on the sample does not: the
  rewrite of the donation amount field matches, and its replacement text holds an
  unescaped dollar sign followed by a closing parenthesis, which \<^verbatim>\<open>replaceAll\<close> refuses
  with an IllegalArgumentException.
\<close>

theorem fix_fails_on_sample: "fixFormHTML originalHTML = Inl IllegalArgumentException"
  by (rule fix_sample)

text \<open>
  C3. The specification says that every label target without an input of that id gets a
  diagnostic, also when no input has an id at all. The JavaScript
  \<^verbatim>\<open>validateFormStructure\<close> runs the label check only when both matches are not null:
  for a label whose input has no id it reports nothing, where the Java class reports
  the label.
\<close>

theorem orphan_label_unreported_without_input_ids:
  \<open>validateFormStructure
      ''<label for="email">Email</label><input type="email" name="email" required>'' = Inr [] \<and>
    validateFormStructure_java
      ''<label for="email">Email</label><input type="email" name="email" required>'' =
      Inr [labelMessage ''email'']\<close>
proof -
  let ?s = \<open>''<label for="email">Email</label><input type="email" name="email" required>''\<close>
  have 1: \<open>findAll labelPattern ?s = [(''<label for="email">'', [Some ''email''])]\<close>
    unfolding labelPattern_def by (simp only: ev cong: ev_cong)
  have 2: \<open>findAll inputIdPattern ?s = []\<close>
    unfolding inputIdPattern_def by (simp only: ev cong: ev_cong)
  have 3: \<open>findAll requiredInputPattern ?s =
      [(''<input type="email" name="email" required>'', [Some ''type="email"''])]\<close>
    unfolding requiredInputPattern_def by (simp only: ev cong: ev_cong)
  have 4: \<open>str_includes ?s ''</input>'' = False\<close> \<open>str_includes ?s ''type="email"'' = True\<close>
    by (simp_all only: ev cong: ev_cong)
  show ?thesis
    by (simp add: validateFormStructure_def validateFormStructure_java_def small 1 2 3 4)
qed

text \<open>
  C4. Validating the reference template gives the empty sequence of diagnostics:
  \<^verbatim>\<open>validateFormStructure(generateCorrectedHTML())\<close> is empty, in the JavaScript class and
  in the Java class.
\<close>

theorem reference_template_has_no_diagnostics: "validateFormStructure generateCorrectedHTML = Inr [] \<and>
    validateFormStructure_java generateCorrectedHTML = Inr []"
  by (simp add: validateFormStructure_def validateFormStructure_java_def small
      corrected_labelPattern corrected_inputIdPattern corrected_requiredInputPattern
      corrected_closing_tags corrected_email_type)

text \<open>
  C5. \<^verbatim>\<open>validateAllRequirements(generateCorrectedHTML())\<close> gives \<^verbatim>\<open>true\<close> for every one of
  the fourteen rule names, in the JavaScript class and in the Java class.
\<close>

theorem reference_template_passes_all_rules: \<open>validateAllRequirements generateCorrectedHTML = Inr
     [(''noInputClosingTags'', True), (''fiveInputElements'', True),
      (''fourLabelElements'', True), (''firstLabelText'', True),
      (''firstInputRequired'', True), (''secondLabelText'', True),
      (''secondInputRequired'', True), (''thirdLabelText'', True),
      (''thirdInputRequired'', True), (''fourthLabelText'', True),
      (''labelInputAssociation'', True), (''emailInputType'', True),
      (''checkboxNotRequired'', True), (''submitNotRequired'', True)] \<and>
   validateAllRequirements_java generateCorrectedHTML = Inr
     [(''no_input_closing_tags'', True), (''five_input_elements'', True),
      (''four_label_elements'', True), (''first_label_text'', True),
      (''first_input_required'', True), (''second_label_text'', True),
      (''second_input_required'', True), (''third_label_text'', True),
      (''third_input_required'', True), (''fourth_label_text'', True),
      (''label_input_association'', True), (''email_input_type'', True),
      (''checkbox_not_required'', True), (''submit_not_required'', True)]\<close>
proof -
  have n5: "(length (findAll inputPattern generateCorrectedHTML) = 5) = True"
    by (simp add: corrected_inputPattern)
  have n4: "(length (findAll labelTagPattern generateCorrectedHTML) = 4) = True"
    by (simp add: corrected_labelTagPattern)
  have js: \<open>validateAllRequirements generateCorrectedHTML = Inr
     [(''noInputClosingTags'', True), (''fiveInputElements'', True),
      (''fourLabelElements'', True), (''firstLabelText'', True),
      (''firstInputRequired'', True), (''secondLabelText'', True),
      (''secondInputRequired'', True), (''thirdLabelText'', True),
      (''thirdInputRequired'', True), (''fourthLabelText'', True),
      (''labelInputAssociation'', True), (''emailInputType'', True),
      (''checkboxNotRequired'', True), (''submitNotRequired'', True)]\<close>
    apply (simp only: validateAllRequirements_def corrected_association match_or_empty
        length_map n5 n4 sum.case)
    apply (simp only: generateCorrectedHTML_def ev cong: ev_cong)
    done
  have java: \<open>validateAllRequirements_java generateCorrectedHTML = Inr
     [(''no_input_closing_tags'', True), (''five_input_elements'', True),
      (''four_label_elements'', True), (''first_label_text'', True),
      (''first_input_required'', True), (''second_label_text'', True),
      (''second_input_required'', True), (''third_label_text'', True),
      (''third_input_required'', True), (''fourth_label_text'', True),
      (''label_input_association'', True), (''email_input_type'', True),
      (''checkbox_not_required'', True), (''submit_not_required'', True)]\<close>
    apply (simp only: validateAllRequirements_java_def corrected_association n5 n4
        corrected_checkbox_required corrected_submit_required sum.case)
    apply (simp only: generateCorrectedHTML_def ev cong: ev_cong)
    done
  from js java show ?thesis by (rule conjI)
qed

text \<open>
  C6. The specification says that \<^verbatim>\<open>fixFormHTML\<close> applied twice to the sample equals
  \<^verbatim>\<open>fixFormHTML\<close> applied once. The first application already raises an
  IllegalArgumentException, so there is no fixed markup to apply it to again.
\<close>

theorem fix_twice_fails_on_sample:
  "(case fixFormHTML originalHTML of Inl e \<Rightarrow> Inl e | Inr fixedHTML \<Rightarrow> fixFormHTML fixedHTML) =
     Inl IllegalArgumentException"
  by (simp add: fix_sample)

text \<open>
  C7 (as amended). For every markup, \<^verbatim>\<open>validateFormStructure\<close> returns, and the email-type
  diagnostic is among its diagnostics exactly when the text \<^verbatim>\<open>type="email"\<close> occurs nowhere
  in the markup, inside an input element or not. The same holds in the Java class.
\<close>

theorem email_diagnostic_iff_text_absent:
  \<open>(\<exists>errs. validateFormStructure htmlContent = Inr errs \<and>
       (emailMessage \<in> set errs) = (\<not> str_includes htmlContent ''type="email"'')) \<and>
    (\<exists>errs. validateFormStructure_java htmlContent = Inr errs \<and>
       (emailMessage \<in> set errs) = (\<not> str_includes htmlContent ''type="email"''))\<close>
proof
  from validateFormStructure_total [of htmlContent] obtain labelErrs requiredErrs where
    r: \<open>validateFormStructure htmlContent =
       Inr ((if str_includes htmlContent ''</input>'' then [voidMessage] else []) @
            labelErrs @ requiredErrs @
            (if \<not> str_includes htmlContent ''type="email"'' then [emailMessage] else []))\<close>
    and l: "\<forall>e\<in>set labelErrs. \<exists>i. e = labelMessage i"
    and q: "\<forall>e\<in>set requiredErrs. \<exists>t. e = requiredMessage t"
    by blast
  from l have 1: "emailMessage \<notin> set labelErrs" using emailMessage_distinct(2) by blast
  from q have 2: "emailMessage \<notin> set requiredErrs" using emailMessage_distinct(3) by blast
  from r 1 2 emailMessage_distinct(1)
  show \<open>\<exists>errs. validateFormStructure htmlContent = Inr errs \<and>
       (emailMessage \<in> set errs) = (\<not> str_includes htmlContent ''type="email"'')\<close>
    by simp
next
  from validateFormStructure_java_total [of htmlContent] obtain ls "is" requiredErrs where
    r: \<open>validateFormStructure_java htmlContent =
       Inr ((if str_includes htmlContent ''</input>'' then [voidMessage] else []) @
            map (\<lambda>labelId. labelMessage (str_java labelId))
              (filter (\<lambda>labelId. labelId \<notin> set is) (remdups ls)) @
            requiredErrs @
            (if \<not> str_includes htmlContent ''type="email"'' then [emailMessage] else []))\<close>
    and q: "\<forall>e\<in>set requiredErrs. \<exists>t. e = requiredMessage t"
    by blast
  from q have 2: "emailMessage \<notin> set requiredErrs" using emailMessage_distinct(3) by blast
  from r 2 emailMessage_distinct(1,2)
  show \<open>\<exists>errs. validateFormStructure_java htmlContent = Inr errs \<and>
       (emailMessage \<in> set errs) = (\<not> str_includes htmlContent ''type="email"'')\<close>
    by auto
qed

text \<open>
  C7 as the specification states it ties the diagnostic to input elements. This markup
  has no input element at all, so none with the email variant, and yet the diagnostic is
  absent: the text \<^verbatim>\<open>type="email"\<close> outside any input suppresses it.
\<close>

theorem email_text_outside_input_counterexample:
  \<open>str_includes ''<p>type="email"</p>'' ''<input'' = False \<and>
    validateFormStructure ''<p>type="email"</p>'' = Inr [] \<and>
    validateFormStructure_java ''<p>type="email"</p>'' = Inr []\<close>
proof -
  let ?s = \<open>''<p>type="email"</p>''\<close>
  have 1: \<open>findAll labelPattern ?s = []\<close>
    unfolding labelPattern_def by (simp only: ev cong: ev_cong)
  have 2: \<open>findAll inputIdPattern ?s = []\<close>
    unfolding inputIdPattern_def by (simp only: ev cong: ev_cong)
  have 3: \<open>findAll requiredInputPattern ?s = []\<close>
    unfolding requiredInputPattern_def by (simp only: ev cong: ev_cong)
  have 4: \<open>str_includes ?s ''</input>'' = False\<close> \<open>str_includes ?s ''type="email"'' = True\<close>
    \<open>str_includes ?s ''<input'' = False\<close>
    by (simp_all only: ev cong: ev_cong)
  show ?thesis
    by (simp add: validateFormStructure_def validateFormStructure_java_def small 1 2 3 4)
qed

text \<open>
  C8. For every pair of markups, \<^verbatim>\<open>validateAllRequirements\<close> returns for both, and the
  two results have the same rule names: the fourteen names written in the checker, in
  the JavaScript class and in the Java class.
\<close>

theorem rule_names_are_fixed:
  \<open>(\<exists>tests tests'.
      validateAllRequirements htmlContent = Inr tests \<and>
      validateAllRequirements htmlContent' = Inr tests' \<and>
      map fst tests = map fst tests' \<and>
      map fst tests =
        [''noInputClosingTags'', ''fiveInputElements'', ''fourLabelElements'', ''firstLabelText'',
         ''firstInputRequired'', ''secondLabelText'', ''secondInputRequired'', ''thirdLabelText'',
         ''thirdInputRequired'', ''fourthLabelText'', ''labelInputAssociation'', ''emailInputType'',
         ''checkboxNotRequired'', ''submitNotRequired'']) \<and>
    (\<exists>tests tests'.
      validateAllRequirements_java htmlContent = Inr tests \<and>
      validateAllRequirements_java htmlContent' = Inr tests' \<and>
      map fst tests = map fst tests' \<and>
      map fst tests =
        [''no_input_closing_tags'', ''five_input_elements'', ''four_label_elements'',
         ''first_label_text'', ''first_input_required'', ''second_label_text'',
         ''second_input_required'', ''third_label_text'', ''third_input_required'',
         ''fourth_label_text'', ''label_input_association'', ''email_input_type'',
         ''checkbox_not_required'', ''submit_not_required''])\<close>
proof -
  obtain b b' where "checkLabelInputAssociation htmlContent = Inr b"
      "checkLabelInputAssociation htmlContent' = Inr b'"
    using checkLabelInputAssociation_total by blast
  moreover obtain c c' where "checkLabelInputAssociation_java htmlContent = Inr c"
      "checkLabelInputAssociation_java htmlContent' = Inr c'"
    using checkLabelInputAssociation_java_total by blast
  ultimately show ?thesis
    by (simp add: validateAllRequirements_def validateAllRequirements_java_def)
qed

text \<open>
  C9. For every markup in which the pattern for a label with a \<^verbatim>\<open>for\<close> attribute matches
  nowhere (in particular when the text \<^verbatim>\<open><label for=\<close> followed by a double quote does
  not occur in it, and for the empty markup), \<^verbatim>\<open>checkLabelInputAssociation\<close> returns \<^verbatim>\<open>true\<close>, in the JavaScript
  class and in the Java class.
\<close>

theorem no_label_passes_association:
  assumes "findAll labelForPattern htmlContent = []"
  shows "checkLabelInputAssociation htmlContent = Inr True \<and>
         checkLabelInputAssociation_java htmlContent = Inr True"
proof
  let ?is = "case match_g inputIdPattern htmlContent of None \<Rightarrow> [] | Some ms \<Rightarrow> ms"
  have "\<exists>v. index1 (match1 idPattern m) = Inr v" if "m \<in> set ?is" for m
  proof (cases "match_g inputIdPattern htmlContent")
    case None
    with that show ?thesis by simp
  next
    case (Some ms)
    with that have "m \<in> set ms" by simp
    from match_g_sound [OF Some this] show ?thesis by (simp add: input_has_id)
  qed
  from mapE_total [of ?is "\<lambda>m. index1 (match1 idPattern m)", OF this] obtain inputIds where
    "mapE (\<lambda>m. index1 (match1 idPattern m)) ?is = Inr inputIds" by blast
  with assms show "checkLabelInputAssociation htmlContent = Inr True"
    by (simp add: checkLabelInputAssociation_def match_g_def)
next
  from findAll_group1_total [of inputIdPattern htmlContent] obtain "is" where
    "mapE (group_java 1) (findAll inputIdPattern htmlContent) = Inr is"
    by (auto simp: inputIdPattern_def)
  with assms show "checkLabelInputAssociation_java htmlContent = Inr True"
    by (simp add: checkLabelInputAssociation_java_def)
qed

theorem no_label_passes_association_witness:
  "(findAll labelForPattern [] = [] \<and>
    checkLabelInputAssociation [] = Inr True \<and>
    checkLabelInputAssociation_java [] = Inr True) \<and>
   (findAll labelForPattern originalHTML = [] \<and>
    checkLabelInputAssociation originalHTML = Inr True \<and>
    checkLabelInputAssociation_java originalHTML = Inr True)"
proof -
  have e: "findAll labelForPattern [] = []"
    by (simp add: findAll_Nil labelForPattern_def)
  from e no_label_passes_association [OF e]
    original_labelForPattern no_label_passes_association [OF original_labelForPattern]
  show ?thesis by simp
qed

text \<open>
  C10. The reference template is a fixed point of the fix transform: no rewrite pattern of
  \<^verbatim>\<open>fixFormHTML\<close> matches in it, so \<^verbatim>\<open>fixFormHTML(generateCorrectedHTML())\<close> returns the
  template unchanged.
\<close>

theorem reference_template_is_fixed_point:
  "fixFormHTML generateCorrectedHTML = Inr generateCorrectedHTML"
  by (rule fix_reference)

end
